theory Spec2Isabelle
  imports Main
begin

section \<open>Basic types\<close>

text \<open>
  A JavaScript string is a sequence of UTF-16 code units, a Buffer a sequence of bytes;
  both are lists of naturals. An instant (a \<^verbatim>\<open>Date\<close>, \<^verbatim>\<open>Date.now()\<close>) is a number of
  milliseconds.
\<close>

type_synonym jsstring = "nat list"
type_synonym bytes = "nat list"
type_synonym instant = int

definition str :: "string \<Rightarrow> jsstring" where
  "str s = map of_char s"

section \<open>UTF-8, as Buffer and the cipher streams apply it\<close>

text \<open>
  \<^verbatim>\<open>cipher.update(text, "utf8", ...)\<close> writes a string as UTF-8: a surrogate pair becomes one
  four-byte sequence, and a surrogate that has no partner is written as U+FFFD.
  \<^verbatim>\<open>decipher.update(..., "utf8") + decipher.final("utf8")\<close> reads UTF-8 back, every ill-formed
  sequence giving U+FFFD.
\<close>

definition isHighSurrogate :: "nat \<Rightarrow> bool" where
  "isHighSurrogate u = (0xD800 \<le> u \<and> u \<le> 0xDBFF)"

definition isLowSurrogate :: "nat \<Rightarrow> bool" where
  "isLowSurrogate u = (0xDC00 \<le> u \<and> u \<le> 0xDFFF)"

definition utf8Bytes :: "nat \<Rightarrow> bytes" where
  "utf8Bytes cp =
     (if cp < 0x80 then [cp]
      else if cp < 0x800 then [0xC0 + cp div 64, 0x80 + cp mod 64]
      else if cp < 0x10000 then
        [0xE0 + cp div 4096, 0x80 + (cp div 64) mod 64, 0x80 + cp mod 64]
      else
        [0xF0 + cp div 262144, 0x80 + (cp div 4096) mod 64,
         0x80 + (cp div 64) mod 64, 0x80 + cp mod 64])"

definition scalarOf :: "nat \<Rightarrow> nat" where
  "scalarOf u = (if isHighSurrogate u \<or> isLowSurrogate u then 0xFFFD else u)"

definition pairOf :: "nat \<Rightarrow> nat \<Rightarrow> nat" where
  "pairOf hi lo = 0x10000 + (hi - 0xD800) * 1024 + (lo - 0xDC00)"

fun utf8Encode :: "jsstring \<Rightarrow> bytes" where
  "utf8Encode [] = []"
| "utf8Encode [u] = utf8Bytes (scalarOf u)"
| "utf8Encode (u # l # us) =
     (if isHighSurrogate u \<and> isLowSurrogate l then utf8Bytes (pairOf u l) @ utf8Encode us
      else utf8Bytes (scalarOf u) @ utf8Encode (l # us))"

definition unitsOf :: "nat \<Rightarrow> jsstring" where
  "unitsOf cp =
     (if cp < 0x10000 then [cp]
      else [0xD800 + (cp - 0x10000) div 1024, 0xDC00 + (cp - 0x10000) mod 1024])"

definition isCont :: "nat \<Rightarrow> bool" where
  "isCont b = (0x80 \<le> b \<and> b \<le> 0xBF)"

text \<open>The range allowed for the second byte after the lead byte \<open>b0\<close>.\<close>

definition secondOk :: "nat \<Rightarrow> nat \<Rightarrow> bool" where
  "secondOk b0 b1 =
     (if b0 = 0xE0 then 0xA0 \<le> b1 \<and> b1 \<le> 0xBF
      else if b0 = 0xED then 0x80 \<le> b1 \<and> b1 \<le> 0x9F
      else if b0 = 0xF0 then 0x90 \<le> b1 \<and> b1 \<le> 0xBF
      else if b0 = 0xF4 then 0x80 \<le> b1 \<and> b1 \<le> 0x8F
      else isCont b1)"

fun utf8Decode :: "bytes \<Rightarrow> jsstring" where
  "utf8Decode [] = []"
| "utf8Decode (b0 # bs) =
     (if b0 < 0x80 then b0 # utf8Decode bs
      else if 0xC2 \<le> b0 \<and> b0 \<le> 0xDF then
        (case bs of
           [] \<Rightarrow> [0xFFFD]
         | b1 # r1 \<Rightarrow>
             if isCont b1 then unitsOf ((b0 - 0xC0) * 64 + (b1 - 0x80)) @ utf8Decode r1
             else 0xFFFD # utf8Decode bs)
      else if 0xE0 \<le> b0 \<and> b0 \<le> 0xEF then
        (case bs of
           [] \<Rightarrow> [0xFFFD]
         | b1 # r1 \<Rightarrow>
             if secondOk b0 b1 then
               (case r1 of
                  [] \<Rightarrow> [0xFFFD]
                | b2 # r2 \<Rightarrow>
                    if isCont b2 then
                      unitsOf ((b0 - 0xE0) * 4096 + (b1 - 0x80) * 64 + (b2 - 0x80))
                        @ utf8Decode r2
                    else 0xFFFD # utf8Decode r1)
             else 0xFFFD # utf8Decode bs)
      else if 0xF0 \<le> b0 \<and> b0 \<le> 0xF4 then
        (case bs of
           [] \<Rightarrow> [0xFFFD]
         | b1 # r1 \<Rightarrow>
             if secondOk b0 b1 then
               (case r1 of
                  [] \<Rightarrow> [0xFFFD]
                | b2 # r2 \<Rightarrow>
                    if isCont b2 then
                      (case r2 of
                         [] \<Rightarrow> [0xFFFD]
                       | b3 # r3 \<Rightarrow>
                           if isCont b3 then
                             unitsOf ((b0 - 0xF0) * 262144 + (b1 - 0x80) * 4096
                                       + (b2 - 0x80) * 64 + (b3 - 0x80))
                               @ utf8Decode r3
                           else 0xFFFD # utf8Decode r2)
                    else 0xFFFD # utf8Decode r1)
             else 0xFFFD # utf8Decode bs)
      else 0xFFFD # utf8Decode bs)"

text \<open>A string is well formed when every surrogate is half of a pair.\<close>

fun wellFormed :: "jsstring \<Rightarrow> bool" where
  "wellFormed [] = True"
| "wellFormed [u] = (u < 0x10000 \<and> \<not> isHighSurrogate u \<and> \<not> isLowSurrogate u)"
| "wellFormed (u # l # us) =
     (if isHighSurrogate u then isLowSurrogate l \<and> wellFormed us
      else u < 0x10000 \<and> \<not> isLowSurrogate u \<and> wellFormed (l # us))"

section \<open>The runtime: Node's crypto, Buffer and JSON\<close>

datatype json =
    JNull
  | JBool bool
  | JNum int
  | JStr jsstring
  | JArr "json list"
  | JObj "(jsstring \<times> json) list"

text \<open>
  The library functions the code calls are parameters of the model: the key derivation,
  AES-256-GCM (ciphertext and tag; decryption fails when the tag does not verify),
  the password-based AES-256-CBC of \<^verbatim>\<open>createCipher\<close>/\<^verbatim>\<open>createDecipher\<close> (decryption fails on bad
  padding), the base64 and base64url codecs of Buffer, \<^verbatim>\<open>JSON.stringify\<close>, \<^verbatim>\<open>JSON.parse\<close>
  (\<open>None\<close> is a SyntaxError), the numeric coercion of \<^verbatim>\<open>now - x\<close> (\<open>None\<close> is NaN) and
  \<^verbatim>\<open>Date.prototype.toJSON\<close>. The hex strings that the code passes between the cipher and
  Buffer stand for the same bytes and are not modelled apart.
\<close>

record runtime =
  pbkdf2Sync :: "jsstring \<Rightarrow> bytes \<Rightarrow> nat \<Rightarrow> nat \<Rightarrow> bytes"
  gcmEncrypt :: "bytes \<Rightarrow> bytes \<Rightarrow> bytes \<Rightarrow> bytes \<Rightarrow> bytes \<times> bytes"
  gcmDecrypt :: "bytes \<Rightarrow> bytes \<Rightarrow> bytes \<Rightarrow> bytes \<Rightarrow> bytes \<Rightarrow> bytes option"
  cbcEncrypt :: "jsstring \<Rightarrow> bytes \<Rightarrow> bytes"
  cbcDecrypt :: "jsstring \<Rightarrow> bytes \<Rightarrow> bytes option"
  base64Encode :: "bytes \<Rightarrow> jsstring"
  base64Decode :: "jsstring \<Rightarrow> bytes"
  base64urlEncode :: "bytes \<Rightarrow> jsstring"
  base64urlDecode :: "jsstring \<Rightarrow> bytes"
  jsonStringify :: "json \<Rightarrow> jsstring"
  jsonParse :: "jsstring \<Rightarrow> json option"
  toNumber :: "json \<Rightarrow> int option"
  toISOString :: "instant \<Rightarrow> jsstring"

text \<open>
  What the code relies on: each decoder inverts its encoder, a GCM tag is 16 bytes, only
  the empty buffer has an empty base64 text, \<^verbatim>\<open>JSON.stringify\<close> writes a well-formed
  string (a lone surrogate is escaped), and a number coerces to itself.
\<close>

definition runtimeOk :: "runtime \<Rightarrow> bool" where
  "runtimeOk R =
     ((\<forall>key iv aad pt.
         gcmDecrypt R key iv aad (snd (gcmEncrypt R key iv aad pt))
           (fst (gcmEncrypt R key iv aad pt)) = Some pt
         \<and> length (snd (gcmEncrypt R key iv aad pt)) = 16)
      \<and> (\<forall>bs. base64Decode R (base64Encode R bs) = bs)
      \<and> (\<forall>bs. (base64Encode R bs = []) = (bs = []))
      \<and> (\<forall>bs. base64urlDecode R (base64urlEncode R bs) = bs)
      \<and> (\<forall>secret pt. cbcDecrypt R secret (cbcEncrypt R secret pt) = Some pt)
      \<and> (\<forall>j. wellFormed (jsonStringify R j))
      \<and> (\<forall>n. toNumber R (JNum n) = Some n))"

section \<open>Errors, configuration and the account table\<close>

datatype trpcCode =
  BAD_REQUEST | UNAUTHORIZED | FORBIDDEN | NOT_FOUND | TOO_MANY_REQUESTS | INTERNAL_SERVER_ERROR

text \<open>
  A thrown value: a plain \<^verbatim>\<open>Error\<close>, an error that carries \<^verbatim>\<open>response.status\<close>, or a
  \<^verbatim>\<open>TRPCError\<close>.
\<close>

datatype jsError =
    Error string
  | ErrorWithStatus nat
  | TRPCError trpcCode string

record env =
  ENCRYPTION_KEY :: "jsstring option"
  OAUTH_STATE_SECRET :: "jsstring option"
  AUTH_SECRET :: "jsstring option"

datatype logEntry =
    ConsoleLog string
  | ConsoleWarn string
  | ConsoleError string
  | CredentialAudit jsstring string

text \<open>The \<^verbatim>\<open>SocialAccount\<close> table of the Prisma schema.\<close>

record socialAccount =
  rowId :: jsstring
  workspaceId :: jsstring
  platform :: jsstring
  accountType :: jsstring
  platformAccountId :: jsstring
  displayName :: jsstring
  encryptedAccessToken :: jsstring
  encryptedRefreshToken :: "jsstring option"
  tokenExpiresAt :: "instant option"
  isActive :: bool
  permissions :: "jsstring list"
  platformMetadata :: json
  createdAt :: instant
  updatedAt :: instant

section \<open>OAuthSessionStore (oauth-state-manager.ts)\<close>

text \<open>
  \<^verbatim>\<open>private static store = new Map<string, { data: any; expiresAt: number }>()\<close> and the
  cleanup timer handle. The payload type is a parameter; \<^verbatim>\<open>get\<close> returns the payload or
  \<^verbatim>\<open>null\<close>, here \<open>None\<close>.
\<close>

record 'a sessionEntry =
  data :: 'a
  expiresAt :: instant

record 'a sessionStore =
  store :: "jsstring \<rightharpoonup> 'a sessionEntry"
  cleanupTimer :: bool

definition sessionSet ::
  "instant \<Rightarrow> jsstring \<Rightarrow> 'a \<Rightarrow> int \<Rightarrow> 'a sessionStore \<Rightarrow> 'a sessionStore" where
  "sessionSet now key d ttlMs s =
     s\<lparr>store := (store s)(key \<mapsto> \<lparr>data = d, expiresAt = now + ttlMs\<rparr>),
       cleanupTimer := True\<rparr>"

definition sessionGet ::
  "instant \<Rightarrow> jsstring \<Rightarrow> 'a sessionStore \<Rightarrow> 'a option \<times> 'a sessionStore" where
  "sessionGet now key s =
     (case store s key of
        None \<Rightarrow> (None, s)
      | Some entry \<Rightarrow>
          if now > expiresAt entry then (None, s\<lparr>store := (store s)(key := None)\<rparr>)
          else (Some (data entry), s\<lparr>store := (store s)(key := None)\<rparr>))"

definition sessionHas ::
  "instant \<Rightarrow> jsstring \<Rightarrow> 'a sessionStore \<Rightarrow> bool \<times> 'a sessionStore" where
  "sessionHas now key s =
     (case store s key of
        None \<Rightarrow> (False, s)
      | Some entry \<Rightarrow>
          if now > expiresAt entry then (False, s\<lparr>store := (store s)(key := None)\<rparr>)
          else (True, s))"

section \<open>The state of the world\<close>

text \<open>
  What the operations read and change: the bytes that \<^verbatim>\<open>crypto.randomBytes\<close> will return
  and how many were drawn, the console, the \<^verbatim>\<open>SocialAccount\<close> table with the state of
  the database connection (every query of an unreachable database throws), and the static
  session store, whose payload is the \<^verbatim>\<open>codeVerifier\<close> of \<^verbatim>\<open>{ codeVerifier }\<close>.
  The clock is an argument of each operation.
\<close>

record world =
  entropy :: "nat \<Rightarrow> nat"
  drawn :: nat
  console :: "logEntry list"
  rows :: "socialAccount list"
  dbOnline :: bool
  sessions :: "jsstring sessionStore"

definition logTo :: "logEntry \<Rightarrow> world \<Rightarrow> world" where
  "logTo e w = w\<lparr>console := console w @ [e]\<rparr>"

definition randomBytes :: "nat \<Rightarrow> world \<Rightarrow> bytes \<times> world" where
  "randomBytes n w = (map (entropy w) [drawn w ..< drawn w + n], w\<lparr>drawn := drawn w + n\<rparr>)"

text \<open>Truthiness of an optional string, and \<^verbatim>\<open>a || b\<close> on optional strings.\<close>

definition truthyStr :: "jsstring option \<Rightarrow> bool" where
  "truthyStr s = (case s of None \<Rightarrow> False | Some x \<Rightarrow> x \<noteq> [])"

definition orElse :: "jsstring option \<Rightarrow> jsstring option \<Rightarrow> jsstring option" where
  "orElse a b = (if truthyStr a then a else b)"

section \<open>lib/encryption.ts\<close>

definition IV_LENGTH :: nat where "IV_LENGTH = 16"
definition SALT_LENGTH :: nat where "SALT_LENGTH = 32"
definition TAG_LENGTH :: nat where "TAG_LENGTH = 16"

definition deriveKey :: "runtime \<Rightarrow> jsstring \<Rightarrow> bytes \<Rightarrow> bytes" where
  "deriveKey R masterKey salt = pbkdf2Sync R masterKey salt 100000 32"

definition encryptFailed :: "world \<Rightarrow> (jsError + jsstring) \<times> world" where
  "encryptFailed w =
     (Inl (Error ''Failed to encrypt data''), logTo (ConsoleError ''Encryption error:'') w)"

definition encrypt ::
  "runtime \<Rightarrow> env \<Rightarrow> jsstring \<Rightarrow> world \<Rightarrow> (jsError + jsstring) \<times> world" where
  "encrypt R E plain w =
     (case ENCRYPTION_KEY E of
        None \<Rightarrow> encryptFailed w
      | Some masterKey \<Rightarrow>
          if masterKey = [] then encryptFailed w
          else
            (let (salt, w1) = randomBytes SALT_LENGTH w;
                 (iv, w2) = randomBytes IV_LENGTH w1;
                 key = deriveKey R masterKey salt;
                 (encrypted, tag) = gcmEncrypt R key iv salt (utf8Encode plain);
                 combined = salt @ iv @ tag @ encrypted
             in (Inr (base64Encode R combined), w2)))"

definition decryptFailed :: "world \<Rightarrow> (jsError + jsstring) \<times> world" where
  "decryptFailed w =
     (Inl (Error ''Failed to decrypt data''), logTo (ConsoleError ''Decryption error:'') w)"

text \<open>\<^verbatim>\<open>combined.subarray(a, b)\<close> clamps to the buffer: it is \<open>take (b - a) (drop a combined)\<close>.\<close>

definition decrypt ::
  "runtime \<Rightarrow> env \<Rightarrow> jsstring \<Rightarrow> world \<Rightarrow> (jsError + jsstring) \<times> world" where
  "decrypt R E encryptedData w =
     (case ENCRYPTION_KEY E of
        None \<Rightarrow> decryptFailed w
      | Some masterKey \<Rightarrow>
          if masterKey = [] then decryptFailed w
          else
            (let combined = base64Decode R encryptedData;
                 salt = take SALT_LENGTH combined;
                 iv = take IV_LENGTH (drop SALT_LENGTH combined);
                 tag = take TAG_LENGTH (drop (SALT_LENGTH + IV_LENGTH) combined);
                 encrypted = drop (SALT_LENGTH + IV_LENGTH + TAG_LENGTH) combined;
                 key = deriveKey R masterKey salt
             in case gcmDecrypt R key iv salt tag encrypted of
                  None \<Rightarrow> decryptFailed w
                | Some decrypted \<Rightarrow> (Inr (utf8Decode decrypted), w)))"

definition encryptObject ::
  "runtime \<Rightarrow> env \<Rightarrow> json \<Rightarrow> world \<Rightarrow> (jsError + jsstring) \<times> world" where
  "encryptObject R E obj w = encrypt R E (jsonStringify R obj) w"

definition decryptObject ::
  "runtime \<Rightarrow> env \<Rightarrow> jsstring \<Rightarrow> world \<Rightarrow> (jsError + json) \<times> world" where
  "decryptObject R E encryptedData w =
     (case decrypt R E encryptedData w of
        (Inl e, w1) \<Rightarrow> (Inl e, w1)
      | (Inr decryptedJson, w1) \<Rightarrow>
          (case jsonParse R decryptedJson of
             None \<Rightarrow> (Inl (Error ''SyntaxError''), w1)
           | Some obj \<Rightarrow> (Inr obj, w1)))"

subsection \<open>CredentialManager\<close>

text \<open>
  The argument of \<^verbatim>\<open>encryptCredentials\<close> as both callers build it, with the four keys
  \<^verbatim>\<open>accessToken\<close>, \<^verbatim>\<open>refreshToken\<close>, \<^verbatim>\<open>expiresAt\<close>, \<^verbatim>\<open>scope\<close>, and its result. Fields of
  different records carry a prefix.
\<close>

record tokenBundle =
  b_accessToken :: jsstring
  b_refreshToken :: "jsstring option"
  b_expiresAt :: "instant option"
  b_scope :: "jsstring list option"

record encryptedBundle =
  e_encryptedAccessToken :: jsstring
  e_encryptedRefreshToken :: "jsstring option"
  e_encryptedMetadata :: "jsstring option"

text \<open>
  The copy of the credentials without the two tokens keeps the keys \<^verbatim>\<open>expiresAt\<close> and
  \<^verbatim>\<open>scope\<close>, so \<^verbatim>\<open>Object.keys(metadata).length > 0\<close> holds. \<^verbatim>\<open>JSON.stringify\<close> leaves out a
  key whose value is \<^verbatim>\<open>undefined\<close> and writes a Date through \<^verbatim>\<open>toJSON\<close>.
\<close>

definition metadataOf :: "runtime \<Rightarrow> tokenBundle \<Rightarrow> json" where
  "metadataOf R b =
     JObj ((case b_expiresAt b of
              None \<Rightarrow> []
            | Some t \<Rightarrow> [(str ''expiresAt'', JStr (toISOString R t))])
           @ (case b_scope b of
                None \<Rightarrow> []
              | Some sc \<Rightarrow> [(str ''scope'', JArr (map JStr sc))]))"

definition encryptCredentials ::
  "runtime \<Rightarrow> env \<Rightarrow> tokenBundle \<Rightarrow> world \<Rightarrow> (jsError + encryptedBundle) \<times> world" where
  "encryptCredentials R E credentials w =
     (case encrypt R E (b_accessToken credentials) w of
        (Inl e, w1) \<Rightarrow> (Inl e, w1)
      | (Inr encAccess, w1) \<Rightarrow>
          (case (if truthyStr (b_refreshToken credentials) then
                   (case encrypt R E (case b_refreshToken credentials of
                                        Some r \<Rightarrow> r | None \<Rightarrow> []) w1 of
                      (Inl e, w2) \<Rightarrow> (Inl e, w2)
                    | (Inr encRefresh, w2) \<Rightarrow> (Inr (Some encRefresh), w2))
                 else (Inr None, w1)) of
             (Inl e, w2) \<Rightarrow> (Inl e, w2)
           | (Inr encRefresh, w2) \<Rightarrow>
               (case encryptObject R E (metadataOf R credentials) w2 of
                  (Inl e, w3) \<Rightarrow> (Inl e, w3)
                | (Inr encMeta, w3) \<Rightarrow>
                    (Inr \<lparr>e_encryptedAccessToken = encAccess,
                          e_encryptedRefreshToken = encRefresh,
                          e_encryptedMetadata = Some encMeta\<rparr>, w3))))"

text \<open>
  \<^verbatim>\<open>decryptCredentials\<close> as the service calls it, with \<^verbatim>\<open>encryptedAccessToken\<close> and
  \<^verbatim>\<open>encryptedRefreshToken\<close> only: the metadata branch is not taken, and the result has the
  access token and, when an encrypted refresh token is given, the refresh token.
\<close>

definition decryptCredentials ::
  "runtime \<Rightarrow> env \<Rightarrow> jsstring \<Rightarrow> jsstring option \<Rightarrow> world
     \<Rightarrow> (jsError + jsstring \<times> jsstring option) \<times> world" where
  "decryptCredentials R E encAccess encRefresh w =
     (case decrypt R E encAccess w of
        (Inl e, w1) \<Rightarrow> (Inl e, w1)
      | (Inr access, w1) \<Rightarrow>
          if truthyStr encRefresh then
            (case decrypt R E (case encRefresh of Some r \<Rightarrow> r | None \<Rightarrow> []) w1 of
               (Inl e, w2) \<Rightarrow> (Inl e, w2)
             | (Inr refresh, w2) \<Rightarrow> (Inr (access, Some refresh), w2))
          else (Inr (access, None), w1))"

section \<open>OAuthStateManager (oauth-state-manager.ts)\<close>

datatype SocialPlatform = FACEBOOK | X | LINKEDIN

datatype AccountType = PERSONAL | BUSINESS | PAGE

fun platformStr :: "SocialPlatform \<Rightarrow> jsstring" where
  "platformStr FACEBOOK = str ''facebook''"
| "platformStr X = str ''x''"
| "platformStr LINKEDIN = str ''linkedin''"

fun accountTypeStr :: "AccountType \<Rightarrow> jsstring" where
  "accountTypeStr PERSONAL = str ''personal''"
| "accountTypeStr BUSINESS = str ''business''"
| "accountTypeStr PAGE = str ''page''"

definition STATE_EXPIRY_MS :: int where
  "STATE_EXPIRY_MS = 10 * 60 * 1000"

definition getStateSecret :: "env \<Rightarrow> jsError + jsstring" where
  "getStateSecret E =
     (case orElse (OAUTH_STATE_SECRET E) (AUTH_SECRET E) of
        None \<Rightarrow> Inl (Error ''OAuth state secret not configured'')
      | Some secret \<Rightarrow>
          if secret = [] then Inl (Error ''OAuth state secret not configured'')
          else Inr secret)"

text \<open>\<^verbatim>\<open>buf.toString('hex')\<close>: two lower-case digits for each byte.\<close>

definition hexDigit :: "nat \<Rightarrow> nat" where
  "hexDigit n = (if n < 10 then 48 + n else 87 + n)"

definition toHex :: "bytes \<Rightarrow> jsstring" where
  "toHex bs = concat (map (\<lambda>b. [hexDigit (b div 16), hexDigit (b mod 16)]) bs)"

definition stateObject ::
  "jsstring \<Rightarrow> SocialPlatform \<Rightarrow> AccountType \<Rightarrow> instant \<Rightarrow> jsstring \<Rightarrow> json" where
  "stateObject ws pf at timestamp nonce =
     JObj [(str ''workspaceId'', JStr ws),
           (str ''platform'', JStr (platformStr pf)),
           (str ''accountType'', JStr (accountTypeStr at)),
           (str ''timestamp'', JNum timestamp),
           (str ''nonce'', JStr nonce)]"

definition generateState ::
  "runtime \<Rightarrow> env \<Rightarrow> instant \<Rightarrow> jsstring \<Rightarrow> SocialPlatform \<Rightarrow> AccountType \<Rightarrow> world
     \<Rightarrow> (jsError + jsstring) \<times> world" where
  "generateState R E now ws pf at w =
     (let timestamp = now;
          (rnd, w1) = randomBytes 16 w;
          nonce = toHex rnd;
          stateJson = jsonStringify R (stateObject ws pf at timestamp nonce)
      in case getStateSecret E of
           Inl e \<Rightarrow> (Inl e, w1)
         | Inr secret \<Rightarrow>
             (Inr (base64urlEncode R (cbcEncrypt R secret (utf8Encode stateJson))), w1))"

text \<open>
  Reading a property of a parsed value: a member of an object, \<^verbatim>\<open>undefined\<close> (\<open>None\<close>) for
  the property names used here on any other value except \<^verbatim>\<open>null\<close>, where the code throws.
\<close>

fun member :: "jsstring \<Rightarrow> json \<Rightarrow> json option" where
  "member k (JObj kvs) = map_of kvs k"
| "member k j = None"

fun truthy :: "json \<Rightarrow> bool" where
  "truthy JNull = False"
| "truthy (JBool b) = b"
| "truthy (JNum n) = (n \<noteq> 0)"
| "truthy (JStr s) = (s \<noteq> [])"
| "truthy (JArr xs) = True"
| "truthy (JObj kvs) = True"

definition falsy :: "json option \<Rightarrow> bool" where
  "falsy v = (case v of None \<Rightarrow> True | Some j \<Rightarrow> \<not> truthy j)"

record parseResult =
  stateData :: "json option"
  isValid :: bool
  parseError :: "string option"

definition parseFailed :: "world \<Rightarrow> parseResult \<times> world" where
  "parseFailed w =
     (\<lparr>stateData = None, isValid = False, parseError = Some ''Failed to parse state''\<rparr>,
      logTo (ConsoleError ''Failed to parse OAuth state:'') w)"

definition parseState ::
  "runtime \<Rightarrow> env \<Rightarrow> instant \<Rightarrow> jsstring \<Rightarrow> world \<Rightarrow> parseResult \<times> world" where
  "parseState R E now state w =
     (let encrypted = base64urlDecode R state
      in case getStateSecret E of
           Inl e \<Rightarrow> parseFailed w
         | Inr secret \<Rightarrow>
             (case cbcDecrypt R secret encrypted of
                None \<Rightarrow> parseFailed w
              | Some decryptedBytes \<Rightarrow>
                  (case jsonParse R (utf8Decode decryptedBytes) of
                     None \<Rightarrow> parseFailed w
                   | Some sd \<Rightarrow>
                       if sd = JNull then parseFailed w
                       else if falsy (member (str ''workspaceId'') sd)
                          \<or> falsy (member (str ''platform'') sd)
                          \<or> falsy (member (str ''accountType'') sd)
                          \<or> falsy (member (str ''timestamp'') sd)
                          \<or> falsy (member (str ''nonce'') sd)
                       then (\<lparr>stateData = None, isValid = False,
                              parseError = Some ''Invalid state format''\<rparr>, w)
                       else if (case member (str ''timestamp'') sd of
                                  None \<Rightarrow> False
                                | Some ts \<Rightarrow>
                                    (case toNumber R ts of
                                       None \<Rightarrow> False
                                     | Some t \<Rightarrow> now - t > STATE_EXPIRY_MS))
                       then (\<lparr>stateData = Some sd, isValid = False,
                              parseError = Some ''State has expired''\<rparr>, w)
                       else (\<lparr>stateData = Some sd, isValid = True, parseError = None\<rparr>, w))))"

section \<open>The SocialAccount table (Prisma client)\<close>

definition dbFailure :: jsError where
  "dbFailure = Error ''PrismaClientError''"

definition findUniqueById :: "jsstring \<Rightarrow> world \<Rightarrow> jsError + socialAccount option" where
  "findUniqueById i w =
     (if dbOnline w then Inr (find (\<lambda>r. rowId r = i) (rows w)) else Inl dbFailure)"

definition findUniqueByKey ::
  "jsstring \<Rightarrow> jsstring \<Rightarrow> jsstring \<Rightarrow> world \<Rightarrow> jsError + socialAccount option" where
  "findUniqueByKey ws pf pid w =
     (if dbOnline w then
        Inr (find (\<lambda>r. workspaceId r = ws \<and> platform r = pf \<and> platformAccountId r = pid)
               (rows w))
      else Inl dbFailure)"

text \<open>
  The \<^verbatim>\<open>data\<close> of an update. A key that is absent, or whose value is \<^verbatim>\<open>undefined\<close>, is
  \<open>None\<close>: Prisma leaves that column as it is.
\<close>

record accountData =
  d_displayName :: "jsstring option"
  d_encryptedAccessToken :: "jsstring option"
  d_encryptedRefreshToken :: "jsstring option"
  d_tokenExpiresAt :: "instant option"
  d_isActive :: "bool option"
  d_permissions :: "jsstring list option"
  d_platformMetadata :: "json option"
  d_updatedAt :: "instant option"

definition noData :: accountData where
  "noData = \<lparr>d_displayName = None, d_encryptedAccessToken = None,
             d_encryptedRefreshToken = None, d_tokenExpiresAt = None, d_isActive = None,
             d_permissions = None, d_platformMetadata = None, d_updatedAt = None\<rparr>"

definition applyData :: "accountData \<Rightarrow> socialAccount \<Rightarrow> socialAccount" where
  "applyData d r =
     r\<lparr>displayName := (case d_displayName d of None \<Rightarrow> displayName r | Some v \<Rightarrow> v),
       encryptedAccessToken :=
         (case d_encryptedAccessToken d of None \<Rightarrow> encryptedAccessToken r | Some v \<Rightarrow> v),
       encryptedRefreshToken :=
         (case d_encryptedRefreshToken d of None \<Rightarrow> encryptedRefreshToken r | Some v \<Rightarrow> Some v),
       tokenExpiresAt :=
         (case d_tokenExpiresAt d of None \<Rightarrow> tokenExpiresAt r | Some v \<Rightarrow> Some v),
       isActive := (case d_isActive d of None \<Rightarrow> isActive r | Some v \<Rightarrow> v),
       permissions := (case d_permissions d of None \<Rightarrow> permissions r | Some v \<Rightarrow> v),
       platformMetadata :=
         (case d_platformMetadata d of None \<Rightarrow> platformMetadata r | Some v \<Rightarrow> v),
       updatedAt := (case d_updatedAt d of None \<Rightarrow> updatedAt r | Some v \<Rightarrow> v)\<rparr>"

definition dbUpdate ::
  "jsstring \<Rightarrow> accountData \<Rightarrow> world \<Rightarrow> (jsError + socialAccount) \<times> world" where
  "dbUpdate i d w =
     (if \<not> dbOnline w then (Inl dbFailure, w)
      else case find (\<lambda>r. rowId r = i) (rows w) of
             None \<Rightarrow> (Inl (Error ''RecordNotFound''), w)
           | Some r \<Rightarrow>
               (Inr (applyData d r),
                w\<lparr>rows := map (\<lambda>x. if rowId x = i then applyData d x else x) (rows w)\<rparr>))"

text \<open>
  \<^verbatim>\<open>@default(cuid())\<close>: the new row gets an id that no row has; here one longer than
  every id in the table.
\<close>

definition freshId :: "socialAccount list \<Rightarrow> jsstring" where
  "freshId rs = replicate (Suc (sum_list (map (\<lambda>r. length (rowId r)) rs))) 99"

definition dbCreate ::
  "instant \<Rightarrow> socialAccount \<Rightarrow> world \<Rightarrow> (jsError + socialAccount) \<times> world" where
  "dbCreate now r w =
     (if \<not> dbOnline w then (Inl dbFailure, w)
      else if find (\<lambda>x. workspaceId x = workspaceId r \<and> platform x = platform r
                       \<and> platformAccountId x = platformAccountId r) (rows w) \<noteq> None
      then (Inl (Error ''UniqueConstraintViolation''), w)
      else
        (let created = r\<lparr>rowId := freshId (rows w), createdAt := now, updatedAt := now\<rparr>
         in (Inr created, w\<lparr>rows := rows w @ [created]\<rparr>)))"

section \<open>CredentialService\<close>

record socialCredentials =
  c_accessToken :: jsstring
  c_refreshToken :: "jsstring option"
  c_expiresAt :: "instant option"
  c_scope :: "jsstring list option"
  c_platformAccountId :: jsstring
  c_displayName :: jsstring
  c_permissions :: "jsstring list"
  c_platformMetadata :: json

text \<open>\<^verbatim>\<open>Partial<SocialCredentials>\<close>: every key may be absent.\<close>

record credentialUpdates =
  u_accessToken :: "jsstring option"
  u_refreshToken :: "jsstring option"
  u_expiresAt :: "instant option"
  u_scope :: "jsstring list option"
  u_platformAccountId :: "jsstring option"
  u_displayName :: "jsstring option"
  u_permissions :: "jsstring list option"
  u_platformMetadata :: "json option"

record storedCredentials =
  s_id :: jsstring
  s_workspaceId :: jsstring
  s_platform :: jsstring
  s_accountType :: jsstring
  s_platformAccountId :: jsstring
  s_displayName :: jsstring
  s_isActive :: bool
  s_tokenExpiresAt :: "instant option"
  s_permissions :: "jsstring list"
  s_platformMetadata :: json
  s_createdAt :: instant
  s_updatedAt :: instant

definition mapToStoredCredentials :: "socialAccount \<Rightarrow> storedCredentials" where
  "mapToStoredCredentials account =
     \<lparr>s_id = rowId account, s_workspaceId = workspaceId account,
      s_platform = platform account, s_accountType = accountType account,
      s_platformAccountId = platformAccountId account, s_displayName = displayName account,
      s_isActive = isActive account, s_tokenExpiresAt = tokenExpiresAt account,
      s_permissions = permissions account, s_platformMetadata = platformMetadata account,
      s_createdAt = createdAt account, s_updatedAt = updatedAt account\<rparr>"

text \<open>The audit line is written to the console and cannot fail.\<close>

definition logCredentialAccess :: "jsstring \<Rightarrow> string \<Rightarrow> world \<Rightarrow> world" where
  "logCredentialAccess accountId action w = logTo (CredentialAudit accountId action) w"

definition storeFailed :: "world \<Rightarrow> (jsError + storedCredentials) \<times> world" where
  "storeFailed w =
     (Inl (TRPCError INTERNAL_SERVER_ERROR ''Failed to store credentials securely''),
      logTo (ConsoleError ''Failed to store credentials:'') w)"

definition storeCredentials ::
  "runtime \<Rightarrow> env \<Rightarrow> instant \<Rightarrow> jsstring \<Rightarrow> jsstring \<Rightarrow> jsstring \<Rightarrow> socialCredentials
     \<Rightarrow> world \<Rightarrow> (jsError + storedCredentials) \<times> world" where
  "storeCredentials R E now ws pf at credentials w =
     (case encryptCredentials R E
             \<lparr>b_accessToken = c_accessToken credentials,
              b_refreshToken = c_refreshToken credentials,
              b_expiresAt = c_expiresAt credentials,
              b_scope = c_scope credentials\<rparr> w of
        (Inl e, w1) \<Rightarrow> storeFailed w1
      | (Inr encryptedData, w1) \<Rightarrow>
          (case findUniqueByKey ws pf (c_platformAccountId credentials) w1 of
             Inl e \<Rightarrow> storeFailed w1
           | Inr existingAccount \<Rightarrow>
               (case (case existingAccount of
                        Some existing \<Rightarrow>
                          dbUpdate (rowId existing)
                            \<lparr>d_displayName = Some (c_displayName credentials),
                             d_encryptedAccessToken =
                               Some (e_encryptedAccessToken encryptedData),
                             d_encryptedRefreshToken = e_encryptedRefreshToken encryptedData,
                             d_tokenExpiresAt = c_expiresAt credentials,
                             d_isActive = Some True,
                             d_permissions = Some (c_permissions credentials),
                             d_platformMetadata = Some (c_platformMetadata credentials),
                             d_updatedAt = Some now\<rparr> w1
                      | None \<Rightarrow>
                          dbCreate now
                            \<lparr>rowId = [], workspaceId = ws, platform = pf, accountType = at,
                             platformAccountId = c_platformAccountId credentials,
                             displayName = c_displayName credentials,
                             encryptedAccessToken = e_encryptedAccessToken encryptedData,
                             encryptedRefreshToken = e_encryptedRefreshToken encryptedData,
                             tokenExpiresAt = c_expiresAt credentials,
                             isActive = True,
                             permissions = c_permissions credentials,
                             platformMetadata = c_platformMetadata credentials,
                             createdAt = now, updatedAt = now\<rparr> w1) of
                  (Inl e, w2) \<Rightarrow> storeFailed w2
                | (Inr account, w2) \<Rightarrow>
                    (Inr (mapToStoredCredentials account),
                     logCredentialAccess (rowId account) ''STORED'' w2))))"

definition getFailed :: "jsstring \<Rightarrow> world \<Rightarrow> (jsError + socialCredentials option) \<times> world" where
  "getFailed accountId w =
     (Inl (TRPCError INTERNAL_SERVER_ERROR ''Failed to retrieve credentials''),
      logCredentialAccess accountId ''ERROR''
        (logTo (ConsoleError ''Failed to retrieve credentials:'') w))"

definition getCredentials ::
  "runtime \<Rightarrow> env \<Rightarrow> instant \<Rightarrow> jsstring \<Rightarrow> world
     \<Rightarrow> (jsError + socialCredentials option) \<times> world" where
  "getCredentials R E now accountId w =
     (case findUniqueById accountId w of
        Inl e \<Rightarrow> getFailed accountId w
      | Inr None \<Rightarrow> (Inr None, w)
      | Inr (Some account) \<Rightarrow>
          if \<not> isActive account then (Inr None, w)
          else if (case tokenExpiresAt account of None \<Rightarrow> False | Some t \<Rightarrow> t < now)
          then (Inr None, logCredentialAccess accountId ''EXPIRED'' w)
          else
            (case decryptCredentials R E (encryptedAccessToken account)
                    (orElse (encryptedRefreshToken account) None) w of
               (Inl e, w1) \<Rightarrow> getFailed accountId w1
             | (Inr (access, refresh), w1) \<Rightarrow>
                 (Inr (Some \<lparr>c_accessToken = access,
                              c_refreshToken = refresh,
                              c_expiresAt = tokenExpiresAt account,
                              c_scope = None,
                              c_platformAccountId = platformAccountId account,
                              c_displayName = displayName account,
                              c_permissions = permissions account,
                              c_platformMetadata = platformMetadata account\<rparr>),
                  logCredentialAccess accountId ''ACCESSED'' w1)))"

definition updateFailed :: "jsstring \<Rightarrow> world \<Rightarrow> (jsError + storedCredentials) \<times> world" where
  "updateFailed accountId w =
     (Inl (TRPCError INTERNAL_SERVER_ERROR ''Failed to update credentials''),
      logCredentialAccess accountId ''ERROR''
        (logTo (ConsoleError ''Failed to update credentials:'') w))"

text \<open>
  The token part of \<^verbatim>\<open>updateCredentials\<close>: the object that is passed to
  \<^verbatim>\<open>encryptCredentials\<close>, merged from the updates and the current credentials, and the
  update data after the block \<^verbatim>\<open>if (updates.accessToken || updates.refreshToken) { ... }\<close>.
  A Date and an array are truthy, so \<^verbatim>\<open>updates.expiresAt || x\<close> is \<^verbatim>\<open>x\<close> only when the key
  is absent.
\<close>

definition mergedTokens :: "credentialUpdates \<Rightarrow> socialCredentials option \<Rightarrow> tokenBundle" where
  "mergedTokens updates currentCredentials =
     \<lparr>b_accessToken =
        (case orElse (orElse (u_accessToken updates)
                        (map_option c_accessToken currentCredentials))
                (Some []) of
           Some a \<Rightarrow> a | None \<Rightarrow> []),
      b_refreshToken =
        orElse (u_refreshToken updates)
          (case currentCredentials of None \<Rightarrow> None | Some c \<Rightarrow> c_refreshToken c),
      b_expiresAt =
        (case u_expiresAt updates of
           Some t \<Rightarrow> Some t
         | None \<Rightarrow> (case currentCredentials of None \<Rightarrow> None | Some c \<Rightarrow> c_expiresAt c)),
      b_scope =
        (case u_scope updates of
           Some sc \<Rightarrow> Some sc
         | None \<Rightarrow> (case currentCredentials of None \<Rightarrow> None | Some c \<Rightarrow> c_scope c))\<rparr>"

definition tokenUpdateData ::
  "runtime \<Rightarrow> env \<Rightarrow> instant \<Rightarrow> jsstring \<Rightarrow> credentialUpdates \<Rightarrow> world
     \<Rightarrow> (jsError + accountData) \<times> world" where
  "tokenUpdateData R E now accountId updates w =
     (if truthyStr (u_accessToken updates) \<or> truthyStr (u_refreshToken updates) then
        (case getCredentials R E now accountId w of
           (Inl e, w1) \<Rightarrow> (Inl e, w1)
         | (Inr currentCredentials, w1) \<Rightarrow>
             (case encryptCredentials R E (mergedTokens updates currentCredentials) w1 of
                (Inl e, w2) \<Rightarrow> (Inl e, w2)
              | (Inr encryptedData, w2) \<Rightarrow>
                  (Inr (noData\<lparr>d_updatedAt := Some now,
                               d_encryptedAccessToken :=
                                 Some (e_encryptedAccessToken encryptedData),
                               d_encryptedRefreshToken :=
                                 (if truthyStr (e_encryptedRefreshToken encryptedData)
                                  then e_encryptedRefreshToken encryptedData else None)\<rparr>),
                   w2)))
      else (Inr (noData\<lparr>d_updatedAt := Some now\<rparr>), w))"

definition updateCredentials ::
  "runtime \<Rightarrow> env \<Rightarrow> instant \<Rightarrow> jsstring \<Rightarrow> credentialUpdates \<Rightarrow> world
     \<Rightarrow> (jsError + storedCredentials) \<times> world" where
  "updateCredentials R E now accountId updates w =
     (case findUniqueById accountId w of
        Inl e \<Rightarrow> updateFailed accountId w
      | Inr None \<Rightarrow> updateFailed accountId w
      | Inr (Some socialAccount) \<Rightarrow>
          (case tokenUpdateData R E now accountId updates w of
             (Inl e, w1) \<Rightarrow> updateFailed accountId w1
           | (Inr updateData, w1) \<Rightarrow>
               (case dbUpdate accountId
                       (updateData\<lparr>d_tokenExpiresAt := u_expiresAt updates,
                                   d_displayName := u_displayName updates,
                                   d_permissions := u_permissions updates,
                                   d_platformMetadata := u_platformMetadata updates\<rparr>) w1 of
                  (Inl e, w2) \<Rightarrow> updateFailed accountId w2
                | (Inr updatedAccount, w2) \<Rightarrow>
                    (Inr (mapToStoredCredentials updatedAccount),
                     logCredentialAccess accountId ''UPDATED'' w2))))"

definition revokeFailed :: "jsstring \<Rightarrow> world \<Rightarrow> (jsError + unit) \<times> world" where
  "revokeFailed accountId w =
     (Inl (TRPCError INTERNAL_SERVER_ERROR ''Failed to revoke credentials''),
      logCredentialAccess accountId ''ERROR''
        (logTo (ConsoleError ''Failed to revoke credentials:'') w))"

definition revokeCredentials ::
  "instant \<Rightarrow> jsstring \<Rightarrow> world \<Rightarrow> (jsError + unit) \<times> world" where
  "revokeCredentials now accountId w =
     (case findUniqueById accountId w of
        Inl e \<Rightarrow> revokeFailed accountId w
      | Inr None \<Rightarrow> revokeFailed accountId w
      | Inr (Some socialAccount) \<Rightarrow>
          (case dbUpdate accountId (noData\<lparr>d_isActive := Some False, d_updatedAt := Some now\<rparr>) w of
             (Inl e, w1) \<Rightarrow> revokeFailed accountId w1
           | (Inr updated, w1) \<Rightarrow> (Inr (), logCredentialAccess accountId ''REVOKED'' w1)))"

definition needsRefresh :: "instant \<Rightarrow> jsstring \<Rightarrow> world \<Rightarrow> bool \<times> world" where
  "needsRefresh now accountId w =
     (case findUniqueById accountId w of
        Inl e \<Rightarrow> (True, logTo (ConsoleError ''Failed to check refresh status:'') w)
      | Inr None \<Rightarrow> (False, w)
      | Inr (Some socialAccount) \<Rightarrow>
          if \<not> isActive socialAccount then (False, w)
          else (case tokenExpiresAt socialAccount of
                  None \<Rightarrow> (False, w)
                | Some t \<Rightarrow>
                    (let fiveMinutesFromNow = now + 5 * 60 * 1000
                     in (t \<le> fiveMinutesFromNow, w))))"

section \<open>The expressions of the round trip\<close>

text \<open>\<^verbatim>\<open>decrypt(encrypt(s))\<close> and \<^verbatim>\<open>decryptObject(encryptObject(o))\<close>: an exception of the inner call
  is the outcome of the expression.\<close>

definition decryptEncrypt :: "runtime \<Rightarrow> env \<Rightarrow> jsstring \<Rightarrow> world \<Rightarrow> jsError + jsstring" where
  "decryptEncrypt R E s w =
     (case encrypt R E s w of
        (Inl e, w1) \<Rightarrow> Inl e
      | (Inr c, w1) \<Rightarrow> fst (decrypt R E c w1))"

definition decryptEncryptObject :: "runtime \<Rightarrow> env \<Rightarrow> json \<Rightarrow> world \<Rightarrow> jsError + json" where
  "decryptEncryptObject R E obj w =
     (case encryptObject R E obj w of
        (Inl e, w1) \<Rightarrow> Inl e
      | (Inr c, w1) \<Rightarrow> fst (decryptObject R E c w1))"

section \<open>Auth providers (base-auth-provider.ts, x-auth-provider.ts, the Facebook provider)\<close>

text \<open>
  \<^verbatim>\<open>OAuthTokens\<close> and \<^verbatim>\<open>PlatformAccount\<close>; of the account, the fields that the code below
  reads.
\<close>

record oauthTokens =
  t_accessToken :: jsstring
  t_refreshToken :: "jsstring option"
  t_expiresIn :: "int option"
  t_scope :: "jsstring list option"

record platformAccount =
  a_id :: jsstring
  a_name :: jsstring
  a_accountType :: AccountType
  a_permissions :: "jsstring list"
  a_metadata :: json

text \<open>
  The platform on the other side of \<^verbatim>\<open>fetch\<close>: what \<^verbatim>\<open>exchangeCodeForTokens\<close> (code, redirect
  URI, code verifier), \<^verbatim>\<open>getAccountInfo\<close> and \<^verbatim>\<open>getUserPages\<close> come back with, and the outcome
  of the revoke request: the fetch rejects, or there is a response with its \<^verbatim>\<open>ok\<close> flag.
\<close>

datatype fetchOutcome = FetchRejects | Response bool

record remote =
  tokenExchange :: "jsstring \<Rightarrow> jsstring \<Rightarrow> jsstring option \<Rightarrow> jsError + oauthTokens"
  accountInfo :: "jsstring \<Rightarrow> jsError + platformAccount"
  userPages :: "jsstring \<Rightarrow> json"
  revokeCall :: "jsstring \<Rightarrow> fetchOutcome"

definition providerStoreCredentials ::
  "runtime \<Rightarrow> env \<Rightarrow> instant \<Rightarrow> SocialPlatform \<Rightarrow> jsstring \<Rightarrow> platformAccount \<Rightarrow> oauthTokens
     \<Rightarrow> world \<Rightarrow> (jsError + unit) \<times> world" where
  "providerStoreCredentials R E now pf ws account tokens w =
     (let expiry = (case t_expiresIn tokens of
                      None \<Rightarrow> None
                    | Some n \<Rightarrow> if n = 0 then None else Some (now + n * 1000));
          credentials =
            \<lparr>c_accessToken = t_accessToken tokens,
             c_refreshToken = t_refreshToken tokens,
             c_expiresAt = expiry,
             c_scope = t_scope tokens,
             c_platformAccountId = a_id account,
             c_displayName = a_name account,
             c_permissions = a_permissions account,
             c_platformMetadata = a_metadata account\<rparr>
      in case storeCredentials R E now ws (platformStr pf)
                (accountTypeStr (a_accountType account)) credentials w of
           (Inl e, w1) \<Rightarrow> (Inl e, w1)
         | (Inr stored, w1) \<Rightarrow> (Inr (), w1))"

definition handleOAuthError :: "jsError \<Rightarrow> string \<Rightarrow> world \<Rightarrow> jsError \<times> world" where
  "handleOAuthError err ctxt w =
     ((case err of
         ErrorWithStatus st \<Rightarrow>
           if st = 401 then
             TRPCError UNAUTHORIZED
               ''Authentication failed. Please try connecting your account again.''
           else if st = 403 then
             TRPCError FORBIDDEN
               ''Insufficient permissions. Please grant the required permissions.''
           else if st = 429 then
             TRPCError TOO_MANY_REQUESTS ''Rate limit exceeded. Please try again later.''
           else TRPCError INTERNAL_SERVER_ERROR (''Failed to '' @ ctxt @ ''. Please try again.'')
       | _ \<Rightarrow> TRPCError INTERNAL_SERVER_ERROR (''Failed to '' @ ctxt @ ''. Please try again.'')),
      logTo (ConsoleError (''OAuth error in '' @ ctxt)) w)"

definition throwOAuthError ::
  "jsError \<Rightarrow> string \<Rightarrow> world \<Rightarrow> (jsError + platformAccount \<times> oauthTokens) \<times> world" where
  "throwOAuthError err ctxt w = (Inl (fst (handleOAuthError err ctxt w)), snd (handleOAuthError err ctxt w))"

definition invalidState :: jsError where
  "invalidState = TRPCError BAD_REQUEST ''Invalid or expired OAuth state''"

text \<open>
  \<^verbatim>\<open>stateResult.data.workspaceId\<close> goes to the credential service as the workspace id; a
  value that is not a string is refused by the database client.
\<close>

definition storeForState ::
  "runtime \<Rightarrow> env \<Rightarrow> instant \<Rightarrow> SocialPlatform \<Rightarrow> json \<Rightarrow> platformAccount \<Rightarrow> oauthTokens
     \<Rightarrow> world \<Rightarrow> (jsError + unit) \<times> world" where
  "storeForState R E now pf sd account tokens w =
     (case member (str ''workspaceId'') sd of
        Some (JStr ws) \<Rightarrow> providerStoreCredentials R E now pf ws account tokens w
      | _ \<Rightarrow> (Inl (Error ''PrismaClientValidationError''), w))"

definition xHandleCallback ::
  "runtime \<Rightarrow> env \<Rightarrow> remote \<Rightarrow> instant \<Rightarrow> jsstring \<Rightarrow> jsstring \<Rightarrow> jsstring \<Rightarrow> world
     \<Rightarrow> (jsError + platformAccount \<times> oauthTokens) \<times> world" where
  "xHandleCallback R E P now code state redirectUri w =
     (case parseState R E now state w of
        (stateResult, w1) \<Rightarrow>
          (case stateData stateResult of
             None \<Rightarrow> (Inl invalidState, w1)
           | Some sd \<Rightarrow>
               if \<not> isValid stateResult then (Inl invalidState, w1)
               else
                 (case sessionGet now (str ''pkce:'' @ state) (sessions w1) of
                    (pkceData, ss) \<Rightarrow>
                      if \<not> truthyStr pkceData then
                        (Inl (TRPCError BAD_REQUEST ''PKCE code verifier not found''),
                         w1\<lparr>sessions := ss\<rparr>)
                      else
                        (case tokenExchange P code redirectUri pkceData of
                           Inl e \<Rightarrow> throwOAuthError e ''X OAuth callback'' (w1\<lparr>sessions := ss\<rparr>)
                         | Inr tokens \<Rightarrow>
                             (case accountInfo P (t_accessToken tokens) of
                                Inl e \<Rightarrow>
                                  throwOAuthError e ''X OAuth callback'' (w1\<lparr>sessions := ss\<rparr>)
                              | Inr account \<Rightarrow>
                                  (case storeForState R E now X sd account tokens
                                          (w1\<lparr>sessions := ss\<rparr>) of
                                     (Inl e, w2) \<Rightarrow> throwOAuthError e ''X OAuth callback'' w2
                                   | (Inr u, w2) \<Rightarrow> (Inr (account, tokens), w2)))))))"

text \<open>\<^verbatim>\<open>account.metadata.availablePages = pages\<close> on the metadata object.\<close>

definition setMember :: "jsstring \<Rightarrow> json \<Rightarrow> json \<Rightarrow> json" where
  "setMember k v j =
     (case j of
        JObj kvs \<Rightarrow>
          (if map_of kvs k = None then JObj (kvs @ [(k, v)])
           else JObj (map (\<lambda>(k', v'). if k' = k then (k', v) else (k', v')) kvs))
      | _ \<Rightarrow> j)"

definition facebookHandleCallback ::
  "runtime \<Rightarrow> env \<Rightarrow> remote \<Rightarrow> instant \<Rightarrow> jsstring \<Rightarrow> jsstring \<Rightarrow> jsstring \<Rightarrow> world
     \<Rightarrow> (jsError + platformAccount \<times> oauthTokens) \<times> world" where
  "facebookHandleCallback R E P now code state redirectUri w =
     (case parseState R E now state w of
        (stateResult, w1) \<Rightarrow>
          (case stateData stateResult of
             None \<Rightarrow> (Inl invalidState, w1)
           | Some sd \<Rightarrow>
               if \<not> isValid stateResult then (Inl invalidState, w1)
               else
                 (case tokenExchange P code redirectUri None of
                    Inl e \<Rightarrow> throwOAuthError e ''Facebook OAuth callback'' w1
                  | Inr tokens \<Rightarrow>
                      (case accountInfo P (t_accessToken tokens) of
                         Inl e \<Rightarrow> throwOAuthError e ''Facebook OAuth callback'' w1
                       | Inr account0 \<Rightarrow>
                           (let account =
                                  (if member (str ''accountType'') sd = Some (JStr (str ''page''))
                                   then account0\<lparr>a_metadata :=
                                          setMember (str ''availablePages'')
                                            (userPages P (t_accessToken tokens))
                                            (a_metadata account0)\<rparr>
                                   else account0)
                            in case storeForState R E now FACEBOOK sd account tokens w1 of
                                 (Inl e, w2) \<Rightarrow> throwOAuthError e ''Facebook OAuth callback'' w2
                               | (Inr u, w2) \<Rightarrow> (Inr (account, tokens), w2))))))"

text \<open>
  \<^verbatim>\<open>XAuthProvider.revokeAccess\<close>. The call of \<^verbatim>\<open>revokeCredentials\<close> after the response stands
  inside the \<^verbatim>\<open>try\<close>: when it throws, the \<^verbatim>\<open>catch\<close> logs and calls it again.
\<close>

definition revokeAccess ::
  "runtime \<Rightarrow> env \<Rightarrow> remote \<Rightarrow> instant \<Rightarrow> jsstring \<Rightarrow> world \<Rightarrow> (jsError + unit) \<times> world" where
  "revokeAccess R E P now accountId w =
     (case getCredentials R E now accountId w of
        (Inl e, w1) \<Rightarrow> (Inl e, w1)
      | (Inr None, w1) \<Rightarrow> (Inr (), w1)
      | (Inr (Some credentials), w1) \<Rightarrow>
          (case revokeCall P (c_accessToken credentials) of
             FetchRejects \<Rightarrow>
               revokeCredentials now accountId
                 (logTo (ConsoleError ''Error revoking X access:'') w1)
           | Response ok \<Rightarrow>
               (case revokeCredentials now accountId
                       (if ok then w1
                        else logTo (ConsoleWarn ''Failed to revoke X token:'') w1) of
                  (Inl e, w2) \<Rightarrow>
                    revokeCredentials now accountId
                      (logTo (ConsoleError ''Error revoking X access:'') w2)
                | (Inr u, w2) \<Rightarrow> (Inr (), w2))))"

section \<open>A sample runtime and world\<close>

text \<open>
  A small runtime on which the statements below can be evaluated: ciphers that leave the
  bytes as they are (GCM with a constant tag), codecs that are the identity, and a JSON
  codec that knows the one document \<open>doc\<close>, written as the text \<^verbatim>\<open>doc\<close>.
\<close>

definition sampleRuntime :: "json \<Rightarrow> runtime" where
  "sampleRuntime doc =
     \<lparr>pbkdf2Sync = (\<lambda>password salt iterations keylen.
                      take keylen (password @ salt @ replicate keylen 0)),
      gcmEncrypt = (\<lambda>key iv aad pt. (pt, replicate 16 0)),
      gcmDecrypt = (\<lambda>key iv aad tag ct. if tag = replicate 16 0 then Some ct else None),
      cbcEncrypt = (\<lambda>secret pt. pt),
      cbcDecrypt = (\<lambda>secret ct. Some ct),
      base64Encode = (\<lambda>bs. bs),
      base64Decode = (\<lambda>s. s),
      base64urlEncode = (\<lambda>bs. bs),
      base64urlDecode = (\<lambda>s. s),
      jsonStringify = (\<lambda>j. if j = doc then str ''doc'' else []),
      jsonParse = (\<lambda>s. if s = str ''doc'' then Some doc else None),
      toNumber = (\<lambda>j. case j of JNum n \<Rightarrow> Some n | _ \<Rightarrow> None),
      toISOString = (\<lambda>t. [])\<rparr>"

definition sampleEnv :: env where
  "sampleEnv = \<lparr>ENCRYPTION_KEY = Some (str ''master''), OAUTH_STATE_SECRET = None,
                AUTH_SECRET = Some (str ''secret'')\<rparr>"

definition sampleWorld :: "socialAccount list \<Rightarrow> world" where
  "sampleWorld rs =
     \<lparr>entropy = (\<lambda>n. 0), drawn = 0, console = [], rows = rs, dbOnline = True,
      sessions = \<lparr>store = Map.empty, cleanupTimer = False\<rparr>\<rparr>"

text \<open>
  A stored account whose access token is the blob that \<open>encrypt\<close> gives for \<^verbatim>\<open>tok\<close> on the
  sample runtime: 32 bytes of salt, 16 of IV, 16 of tag, then the text.
\<close>

definition sampleAccount :: socialAccount where
  "sampleAccount =
     \<lparr>rowId = str ''acc1'', workspaceId = str ''ws1'', platform = str ''x'',
      accountType = str ''personal'', platformAccountId = str ''42'',
      displayName = str ''Ada'', encryptedAccessToken = replicate 64 0 @ str ''tok'',
      encryptedRefreshToken = None, tokenExpiresAt = None, isActive = True,
      permissions = [], platformMetadata = JObj [], createdAt = 0, updatedAt = 0\<rparr>"

definition sampleTokens :: oauthTokens where
  "sampleTokens = \<lparr>t_accessToken = str ''tok'', t_refreshToken = None, t_expiresIn = None,
                   t_scope = None\<rparr>"

definition samplePlatformAccount :: platformAccount where
  "samplePlatformAccount =
     \<lparr>a_id = str ''42'', a_name = str ''Ada'', a_accountType = PERSONAL, a_permissions = [],
      a_metadata = JObj []\<rparr>"

definition sampleRemote :: "fetchOutcome \<Rightarrow> remote" where
  "sampleRemote revoked =
     \<lparr>tokenExchange = (\<lambda>code redirectUri verifier. Inr sampleTokens),
      accountInfo = (\<lambda>accessToken. Inr samplePlatformAccount),
      userPages = (\<lambda>accessToken. JArr []),
      revokeCall = (\<lambda>accessToken. revoked)\<rparr>"

text \<open>A thrown value with the \<^verbatim>\<open>BAD_REQUEST\<close> code.\<close>

definition isBadRequest :: "jsError + 'a \<Rightarrow> bool" where
  "isBadRequest r = (case r of Inl (TRPCError BAD_REQUEST m) \<Rightarrow> True | _ \<Rightarrow> False)"

section \<open>Properties of the session store\<close>

lemma sessionGet_removes: "store (snd (sessionGet now key s)) key = None"
  by (simp add: sessionGet_def split: option.split)

text \<open>
  C9. For a key that is stored and has not expired, \<open>get\<close> returns the stored payload, and
  the next \<open>get\<close> of the same key, at any time and with no \<open>set\<close> in between, returns
  \<^verbatim>\<open>null\<close>: the first read deleted the entry.
\<close>

theorem sessionGet_take_once:
  assumes "store s key = Some entry" and "\<not> now1 > expiresAt entry"
  shows "fst (sessionGet now1 key s) = Some (data entry)
       \<and> fst (sessionGet now2 key (snd (sessionGet now1 key s))) = None"
  using assms by (simp add: sessionGet_def)

theorem sessionGet_take_once_witness:
  "fst (sessionGet 5 (str ''pkce:abc'')
         (sessionSet 0 (str ''pkce:abc'') (str ''verifier'') 600000
            \<lparr>store = Map.empty, cleanupTimer = False\<rparr>)) = Some (str ''verifier'')
   \<and> fst (sessionGet 7 (str ''pkce:abc'')
         (snd (sessionGet 5 (str ''pkce:abc'')
            (sessionSet 0 (str ''pkce:abc'') (str ''verifier'') 600000
               \<lparr>store = Map.empty, cleanupTimer = False\<rparr>)))) = None"
  using sessionGet_take_once
    [of "sessionSet 0 (str ''pkce:abc'') (str ''verifier'') 600000
           \<lparr>store = Map.empty, cleanupTimer = False\<rparr>"
        "str ''pkce:abc''" "\<lparr>data = str ''verifier'', expiresAt = 600000\<rparr>" 5 7]
  by (simp add: sessionSet_def)

section \<open>UTF-8 round trip\<close>

lemma utf8Decode_1: "b0 < 0x80 \<Longrightarrow> utf8Decode (b0 # bs) = b0 # utf8Decode bs"
  by simp

lemma utf8Decode_2:
  "0xC2 \<le> b0 \<Longrightarrow> b0 \<le> 0xDF \<Longrightarrow> isCont b1 \<Longrightarrow>
   utf8Decode (b0 # b1 # r) = unitsOf ((b0 - 0xC0) * 64 + (b1 - 0x80)) @ utf8Decode r"
  by simp

lemma utf8Decode_3:
  "0xE0 \<le> b0 \<Longrightarrow> b0 \<le> 0xEF \<Longrightarrow> secondOk b0 b1 \<Longrightarrow> isCont b2 \<Longrightarrow>
   utf8Decode (b0 # b1 # b2 # r) =
     unitsOf ((b0 - 0xE0) * 4096 + (b1 - 0x80) * 64 + (b2 - 0x80)) @ utf8Decode r"
  by simp

lemma utf8Decode_4:
  "0xF0 \<le> b0 \<Longrightarrow> b0 \<le> 0xF4 \<Longrightarrow> secondOk b0 b1 \<Longrightarrow> isCont b2 \<Longrightarrow> isCont b3 \<Longrightarrow>
   utf8Decode (b0 # b1 # b2 # b3 # r) =
     unitsOf ((b0 - 0xF0) * 262144 + (b1 - 0x80) * 4096 + (b2 - 0x80) * 64 + (b3 - 0x80))
       @ utf8Decode r"
  by simp

lemma div64:
  fixes n :: nat
  shows "64 * (n div 64) \<le> n" "n < 64 * (n div 64) + 64" "n mod 64 = n - 64 * (n div 64)"
  by presburger+

lemma utf8Decode_bytes:
  assumes "cp < 0x110000" "\<not> isHighSurrogate cp" "\<not> isLowSurrogate cp"
  shows "utf8Decode (utf8Bytes cp @ rest) = unitsOf cp @ utf8Decode rest"
proof -
  define x where "x = cp div 64"
  define y where "y = x div 64"
  define z where "z = y div 64"
  note fx = div64[of cp, folded x_def]
  note fy = div64[of x, folded y_def]
  note fz = div64[of y, folded z_def]
  have e1: "cp div 4096 = y"
    using div_mult2_eq[of cp 64 64] by (simp add: x_def y_def)
  have e2: "cp div 262144 = z"
    using div_mult2_eq[of cp 4096 64] by (simp add: e1 z_def)
  consider "cp < 0x80" | "0x80 \<le> cp \<and> cp < 0x800" | "0x800 \<le> cp \<and> cp < 0x10000" | "0x10000 \<le> cp"
    by linarith
  then show ?thesis
  proof cases
    case 1 then show ?thesis by (simp add: utf8Bytes_def unitsOf_def)
  next
    case 2
    have b: "utf8Bytes cp = [0xC0 + x, 0x80 + (cp - 64 * x)]"
      using 2 by (simp add: utf8Bytes_def x_def fx)
    have r: "0xC2 \<le> 0xC0 + x" "0xC0 + x \<le> 0xDF" "isCont (0x80 + (cp - 64 * x))"
      using 2 fx by (auto simp: isCont_def)
    have v: "(0xC0 + x - 0xC0) * 64 + (0x80 + (cp - 64 * x) - 0x80) = cp"
      using fx by simp
    show ?thesis
      unfolding b using utf8Decode_2[OF r, of rest] unfolding v by simp
  next
    case 3
    have b: "utf8Bytes cp = [0xE0 + y, 0x80 + (x - 64 * y), 0x80 + (cp - 64 * x)]"
      using 3 by (simp add: utf8Bytes_def e1 fx fy flip: x_def)
    have s: "cp < 0xD800 \<or> 0xDFFF < cp"
      using assms by (auto simp: isHighSurrogate_def isLowSurrogate_def)
    have r: "0xE0 \<le> 0xE0 + y" "0xE0 + y \<le> 0xEF" "isCont (0x80 + (cp - 64 * x))"
      using 3 fx fy by (auto simp: isCont_def)
    have r2: "secondOk (0xE0 + y) (0x80 + (x - 64 * y))"
      using 3 s fx fy by (auto simp: secondOk_def isCont_def)
    have v: "(0xE0 + y - 0xE0) * 4096 + (0x80 + (x - 64 * y) - 0x80) * 64
               + (0x80 + (cp - 64 * x) - 0x80) = cp"
      using fx fy by simp
    show ?thesis
      unfolding b using utf8Decode_3[OF r(1) r(2) r2 r(3), of rest] unfolding v by simp
  next
    case 4
    have b: "utf8Bytes cp = [0xF0 + z, 0x80 + (y - 64 * z), 0x80 + (x - 64 * y),
                             0x80 + (cp - 64 * x)]"
      using 4 by (simp add: utf8Bytes_def e1 e2 fx fy fz flip: x_def)
    have r: "0xF0 \<le> 0xF0 + z" "0xF0 + z \<le> 0xF4"
        "isCont (0x80 + (x - 64 * y))" "isCont (0x80 + (cp - 64 * x))"
      using 4 assms(1) fx fy fz by (auto simp: isCont_def)
    have r2: "secondOk (0xF0 + z) (0x80 + (y - 64 * z))"
      using 4 assms(1) fx fy fz by (auto simp: secondOk_def isCont_def)
    have v: "(0xF0 + z - 0xF0) * 262144 + (0x80 + (y - 64 * z) - 0x80) * 4096
               + (0x80 + (x - 64 * y) - 0x80) * 64 + (0x80 + (cp - 64 * x) - 0x80) = cp"
      using fx fy fz by simp
    show ?thesis
      unfolding b using utf8Decode_4[OF r(1) r(2) r2 r(3) r(4), of rest] unfolding v by simp
  qed
qed

lemma unitsOf_pairOf:
  assumes "isHighSurrogate u" "isLowSurrogate l"
  shows "unitsOf (pairOf u l) = [u, l]"
proof -
  obtain a where a: "u = 0xD800 + a"
    using assms(1) le_Suc_ex unfolding isHighSurrogate_def by blast
  obtain b where b: "l = 0xDC00 + b"
    using assms(2) le_Suc_ex unfolding isLowSurrogate_def by blast
  have ab: "a < 1024" "b < 1024"
    using assms unfolding a b isHighSurrogate_def isLowSurrogate_def by auto
  show ?thesis unfolding a b pairOf_def unitsOf_def using ab by simp
qed

lemma pairOf_scalar:
  assumes "isHighSurrogate u" "isLowSurrogate l"
  shows "pairOf u l < 0x110000" "\<not> isHighSurrogate (pairOf u l)" "\<not> isLowSurrogate (pairOf u l)"
  using assms unfolding isHighSurrogate_def isLowSurrogate_def pairOf_def by auto

lemma utf8_roundtrip: "wellFormed s \<Longrightarrow> utf8Decode (utf8Encode s) = s"
proof (induction s rule: utf8Encode.induct)
  case 1
  then show ?case by simp
next
  case (2 u)
  then have "utf8Decode (utf8Bytes u @ []) = unitsOf u @ utf8Decode []"
    by (intro utf8Decode_bytes) auto
  with 2 show ?case by (simp add: scalarOf_def unitsOf_def)
next
  case (3 u l us)
  show ?case
  proof (cases "isHighSurrogate u")
    case True
    with 3 have wf: "isLowSurrogate l" "wellFormed us" by auto
    have "utf8Decode (utf8Bytes (pairOf u l) @ utf8Encode us)
            = unitsOf (pairOf u l) @ utf8Decode (utf8Encode us)"
      using pairOf_scalar[OF True wf(1)] by (intro utf8Decode_bytes)
    then show ?thesis
      using True wf 3 by (simp add: unitsOf_pairOf)
  next
    case False
    with 3 have wf: "u < 0x10000" "\<not> isLowSurrogate u" "wellFormed (l # us)" by auto
    have "utf8Decode (utf8Bytes u @ utf8Encode (l # us)) = unitsOf u @ utf8Decode (utf8Encode (l # us))"
      using wf False by (intro utf8Decode_bytes) auto
    then show ?thesis
      using False wf 3 by (simp add: scalarOf_def unitsOf_def)
  qed
qed

section \<open>Encryption round trip\<close>

lemma randomBytes_length: "length (fst (randomBytes n w)) = n"
  by (simp add: randomBytes_def)

lemma split_combined:
  assumes "length salt = 32" "length iv = 16" "length tag = 16"
  shows "take SALT_LENGTH (salt @ iv @ tag @ ct) = salt"
    "take IV_LENGTH (drop SALT_LENGTH (salt @ iv @ tag @ ct)) = iv"
    "take TAG_LENGTH (drop (SALT_LENGTH + IV_LENGTH) (salt @ iv @ tag @ ct)) = tag"
    "drop (SALT_LENGTH + IV_LENGTH + TAG_LENGTH) (salt @ iv @ tag @ ct) = ct"
  using assms by (simp_all add: SALT_LENGTH_def IV_LENGTH_def TAG_LENGTH_def)

lemma runtimeOk_gcm:
  assumes "runtimeOk R" "gcmEncrypt R key iv aad pt = (ct, tag)"
  shows "gcmDecrypt R key iv aad tag ct = Some pt" "length tag = 16"
  using assms unfolding runtimeOk_def by (metis fst_conv snd_conv)+

lemma runtimeOk_base64: "runtimeOk R \<Longrightarrow> base64Decode R (base64Encode R bs) = bs"
  unfolding runtimeOk_def by blast

lemma encrypt_then_decrypt:
  assumes ok: "runtimeOk R" and key: "truthyStr (ENCRYPTION_KEY E)"
    and enc: "encrypt R E s w = (r, w1)"
  shows "\<exists>c. r = Inr c \<and> decrypt R E c w2 = (Inr (utf8Decode (utf8Encode s)), w2)"
proof -
  obtain mk where mk: "ENCRYPTION_KEY E = Some mk" "mk \<noteq> []"
    using key by (auto simp: truthyStr_def split: option.splits)
  define salt where "salt = fst (randomBytes SALT_LENGTH w)"
  define wa where "wa = snd (randomBytes SALT_LENGTH w)"
  define iv where "iv = fst (randomBytes IV_LENGTH wa)"
  define k where "k = deriveKey R mk salt"
  obtain ct tag where g: "gcmEncrypt R k iv salt (utf8Encode s) = (ct, tag)"
    by (cases "gcmEncrypt R k iv salt (utf8Encode s)")
  have r: "r = Inr (base64Encode R (salt @ iv @ tag @ ct))"
    using enc mk g
    by (auto simp: encrypt_def Let_def split_def salt_def wa_def iv_def k_def)
  have len: "length salt = 32" "length iv = 16" "length tag = 16"
    using runtimeOk_gcm(2)[OF ok g]
    by (simp_all add: salt_def iv_def randomBytes_length SALT_LENGTH_def IV_LENGTH_def)
  have "decrypt R E (base64Encode R (salt @ iv @ tag @ ct)) w2
          = (Inr (utf8Decode (utf8Encode s)), w2)"
    unfolding decrypt_def Let_def
    by (simp add: mk runtimeOk_base64[OF ok] split_combined[OF len] runtimeOk_gcm(1)[OF ok g]
          del: take_append drop_append flip: k_def)
  with r show ?thesis by blast
qed

lemma sampleRuntime_ok: "runtimeOk (sampleRuntime doc)"
  by (simp add: runtimeOk_def sampleRuntime_def str_def isHighSurrogate_def isLowSurrogate_def)

lemma decryptEncrypt_utf8:
  assumes "runtimeOk R" and "truthyStr (ENCRYPTION_KEY E)"
  shows "decryptEncrypt R E s w = Inr (utf8Decode (utf8Encode s))"
proof -
  obtain r w1 where e: "encrypt R E s w = (r, w1)"
    by (cases "encrypt R E s w")
  from encrypt_then_decrypt[OF assms e, of w1] e show ?thesis
    by (auto simp: decryptEncrypt_def)
qed

lemma runtimeOk_wellFormed: "runtimeOk R \<Longrightarrow> wellFormed (jsonStringify R j)"
  unfolding runtimeOk_def by blast

text \<open>
  C2, as the code has it. With the master key configured: \<open>decrypt(encrypt(s))\<close> returns
  \<open>s\<close> for every well-formed string \<open>s\<close> (no surrogate without its partner), and
  \<open>decryptObject(encryptObject(o))\<close> returns \<open>o\<close> for every object that \<^verbatim>\<open>JSON.parse\<close> reads
  back from its \<^verbatim>\<open>JSON.stringify\<close> text.
\<close>

theorem encrypt_decrypt_roundtrip:
  assumes "runtimeOk R" and "truthyStr (ENCRYPTION_KEY E)"
  shows "(wellFormed s \<longrightarrow> decryptEncrypt R E s w = Inr s)
       \<and> (jsonParse R (jsonStringify R obj) = Some obj
            \<longrightarrow> decryptEncryptObject R E obj w = Inr obj)"
proof (intro conjI impI)
  assume "wellFormed s"
  then show "decryptEncrypt R E s w = Inr s"
    using decryptEncrypt_utf8[OF assms] by (simp add: utf8_roundtrip)
next
  assume p: "jsonParse R (jsonStringify R obj) = Some obj"
  obtain r w1 where e: "encrypt R E (jsonStringify R obj) w = (r, w1)"
    by (cases "encrypt R E (jsonStringify R obj) w")
  from encrypt_then_decrypt[OF assms e, of w1] obtain c where
    c: "r = Inr c" "decrypt R E c w1 = (Inr (jsonStringify R obj), w1)"
    by (auto simp: utf8_roundtrip[OF runtimeOk_wellFormed[OF assms(1)]])
  show "decryptEncryptObject R E obj w = Inr obj"
    by (simp add: decryptEncryptObject_def encryptObject_def decryptObject_def e c p)
qed

theorem encrypt_decrypt_roundtrip_witness:
  "decryptEncrypt (sampleRuntime (JObj [(str ''a'', JNum 1)])) sampleEnv (str ''token'')
       (sampleWorld []) = Inr (str ''token'')
   \<and> decryptEncryptObject (sampleRuntime (JObj [(str ''a'', JNum 1)])) sampleEnv
       (JObj [(str ''a'', JNum 1)]) (sampleWorld []) = Inr (JObj [(str ''a'', JNum 1)])"
  using encrypt_decrypt_roundtrip[OF sampleRuntime_ok,
          where E = sampleEnv and doc1 = "JObj [(str ''a'', JNum 1)]" and s = "str ''token''"
            and w = "sampleWorld []" and obj = "JObj [(str ''a'', JNum 1)]"]
  by (simp add: sampleEnv_def truthyStr_def str_def isHighSurrogate_def isLowSurrogate_def
        sampleRuntime_def)

text \<open>
  C2 as stated fails on a string that holds a lone surrogate: the cipher writes it as
  U+FFFD, and that is what \<open>decrypt\<close> returns. By \<open>decryptEncrypt_utf8\<close> this is so on
  every runtime that \<open>runtimeOk\<close> admits; the sample runtime is one.
\<close>

theorem lone_surrogate_counterexample:
  "decryptEncrypt (sampleRuntime JNull) sampleEnv [0xD800] (sampleWorld []) = Inr [0xFFFD]"
  using decryptEncrypt_utf8[OF sampleRuntime_ok,
          where E = sampleEnv and doc1 = JNull and s = "[0xD800]" and w = "sampleWorld []"]
  by (simp add: sampleEnv_def truthyStr_def str_def scalarOf_def isHighSurrogate_def
        isLowSurrogate_def utf8Bytes_def isCont_def secondOk_def unitsOf_def)

section \<open>Properties of the credential service\<close>

text \<open>
  C8. \<open>getCredentials\<close> returns \<^verbatim>\<open>null\<close>, and does not throw, when the lookup finds no
  record, an inactive record, or an active record whose stored expiry is before now;
  nothing of the record's tokens is read in these cases.
\<close>

theorem getCredentials_null:
  assumes "findUniqueById accountId w = Inr found"
    and "found = None
         \<or> (\<exists>account. found = Some account
               \<and> (\<not> isActive account
                   \<or> (\<exists>t. tokenExpiresAt account = Some t \<and> t < now)))"
  shows "fst (getCredentials R E now accountId w) = Inr None"
  using assms by (auto simp: getCredentials_def)

theorem getCredentials_null_witness:
  "fst (getCredentials (sampleRuntime JNull) sampleEnv 1000 (str ''acc1'')
         (sampleWorld [sampleAccount\<lparr>isActive := False\<rparr>])) = Inr None"
  using getCredentials_null
    [where accountId = "str ''acc1''"
       and w = "sampleWorld [sampleAccount\<lparr>isActive := False\<rparr>]"
       and found = "Some (sampleAccount\<lparr>isActive := False\<rparr>)"
       and now = 1000 and R = "sampleRuntime JNull" and E = sampleEnv]
  by (simp add: findUniqueById_def sampleWorld_def sampleAccount_def)

text \<open>
  C10. \<open>needsRefresh\<close> returns false when the lookup finds no record or an inactive one,
  and true when the lookup itself throws; it has no throwing outcome.
\<close>

theorem needsRefresh_missing_inactive_or_failing:
  "(findUniqueById accountId w = Inr None \<longrightarrow> \<not> fst (needsRefresh now accountId w))
   \<and> (findUniqueById accountId w = Inr (Some account) \<and> \<not> isActive account
        \<longrightarrow> \<not> fst (needsRefresh now accountId w))
   \<and> (findUniqueById accountId w = Inl e \<longrightarrow> fst (needsRefresh now accountId w))"
  by (auto simp: needsRefresh_def)

theorem needsRefresh_missing_inactive_or_failing_witness:
  "\<not> fst (needsRefresh 1000 (str ''acc1'') (sampleWorld []))
   \<and> \<not> fst (needsRefresh 1000 (str ''acc1'')
            (sampleWorld [sampleAccount\<lparr>isActive := False, tokenExpiresAt := Some 2000\<rparr>]))
   \<and> fst (needsRefresh 1000 (str ''acc1'') ((sampleWorld [sampleAccount])\<lparr>dbOnline := False\<rparr>))"
  using needsRefresh_missing_inactive_or_failing
      [where accountId = "str ''acc1''" and w = "sampleWorld []" and now = 1000]
    needsRefresh_missing_inactive_or_failing
      [where accountId = "str ''acc1''" and now = 1000
         and w = "sampleWorld [sampleAccount\<lparr>isActive := False, tokenExpiresAt := Some 2000\<rparr>]"
         and account = "sampleAccount\<lparr>isActive := False, tokenExpiresAt := Some 2000\<rparr>"]
    needsRefresh_missing_inactive_or_failing
      [where accountId = "str ''acc1''" and now = 1000
         and w = "(sampleWorld [sampleAccount])\<lparr>dbOnline := False\<rparr>" and e = dbFailure]
  by (simp add: findUniqueById_def sampleWorld_def sampleAccount_def)

text \<open>
  C6, as the code has it. For an active account that the lookup returns, \<open>needsRefresh\<close>
  is true exactly when an expiry is stored and it is not later than five minutes from
  now; so it is false without an expiry, true for an expiry three minutes ahead and false
  for one ten minutes ahead.
\<close>

theorem needsRefresh_active:
  assumes "findUniqueById accountId w = Inr (Some account)" and "isActive account"
  shows "(fst (needsRefresh now accountId w)
            \<longleftrightarrow> (\<exists>t. tokenExpiresAt account = Some t \<and> t \<le> now + 5 * 60 * 1000))
       \<and> (tokenExpiresAt account = None \<longrightarrow> \<not> fst (needsRefresh now accountId w))
       \<and> (tokenExpiresAt account = Some (now + 3 * 60 * 1000)
            \<longrightarrow> fst (needsRefresh now accountId w))
       \<and> (tokenExpiresAt account = Some (now + 10 * 60 * 1000)
            \<longrightarrow> \<not> fst (needsRefresh now accountId w))"
  using assms by (auto simp: needsRefresh_def Let_def split: option.splits)

theorem needsRefresh_active_witness:
  "fst (needsRefresh 1000 (str ''acc1'')
         (sampleWorld [sampleAccount\<lparr>tokenExpiresAt := Some (1000 + 3 * 60 * 1000)\<rparr>]))
   \<and> \<not> fst (needsRefresh 1000 (str ''acc1'')
            (sampleWorld [sampleAccount\<lparr>tokenExpiresAt := Some (1000 + 10 * 60 * 1000)\<rparr>]))"
  using needsRefresh_active
      [where accountId = "str ''acc1''" and now = 1000
         and w = "sampleWorld [sampleAccount\<lparr>tokenExpiresAt := Some (1000 + 3 * 60 * 1000)\<rparr>]"
         and account = "sampleAccount\<lparr>tokenExpiresAt := Some (1000 + 3 * 60 * 1000)\<rparr>"]
    needsRefresh_active
      [where accountId = "str ''acc1''" and now = 1000
         and w = "sampleWorld [sampleAccount\<lparr>tokenExpiresAt := Some (1000 + 10 * 60 * 1000)\<rparr>]"
         and account = "sampleAccount\<lparr>tokenExpiresAt := Some (1000 + 10 * 60 * 1000)\<rparr>"]
  by (simp add: findUniqueById_def sampleWorld_def sampleAccount_def)

text \<open>
  C6 as stated, for every account, fails on an inactive one: its expiry is set and lies
  three minutes ahead, inside the window, and \<open>needsRefresh\<close> is false.
\<close>

theorem needsRefresh_inactive_counterexample:
  "tokenExpiresAt (sampleAccount\<lparr>isActive := False,
                                 tokenExpiresAt := Some (1000 + 3 * 60 * 1000)\<rparr>)
     = Some (1000 + 3 * 60 * 1000)
   \<and> (1000 :: int) + 3 * 60 * 1000 \<le> 1000 + 5 * 60 * 1000
   \<and> fst (needsRefresh 1000 (str ''acc1'')
           (sampleWorld [sampleAccount\<lparr>isActive := False,
                                        tokenExpiresAt := Some (1000 + 3 * 60 * 1000)\<rparr>]))
       = False"
  by (simp add: needsRefresh_def findUniqueById_def sampleWorld_def sampleAccount_def)

section \<open>Properties of the state token\<close>

lemma toHex_length: "length (toHex bs) = 2 * length bs"
  by (induction bs) (simp_all add: toHex_def)

lemma nonce_nonempty: "toHex (fst (randomBytes 16 w)) \<noteq> []"
  using toHex_length[of "fst (randomBytes 16 w)"] randomBytes_length[of 16 w] by auto

lemma platformStr_nonempty: "platformStr pf \<noteq> []"
  by (cases pf) (simp_all add: str_def)

lemma accountTypeStr_nonempty: "accountTypeStr at \<noteq> []"
  by (cases at) (simp_all add: str_def)

lemma stateObject_members:
  "member (str ''workspaceId'') (stateObject ws pf at t n) = Some (JStr ws)"
  "member (str ''platform'') (stateObject ws pf at t n) = Some (JStr (platformStr pf))"
  "member (str ''accountType'') (stateObject ws pf at t n) = Some (JStr (accountTypeStr at))"
  "member (str ''timestamp'') (stateObject ws pf at t n) = Some (JNum t)"
  "member (str ''nonce'') (stateObject ws pf at t n) = Some (JStr n)"
  by (simp_all add: stateObject_def str_def)

lemma generateState_minted:
  assumes "generateState R E T ws pf at w = (Inr state, w1)"
  shows "\<exists>secret. getStateSecret E = Inr secret
           \<and> state = base64urlEncode R (cbcEncrypt R secret (utf8Encode (jsonStringify R
                 (stateObject ws pf at T (toHex (fst (randomBytes 16 w)))))))"
  using assms by (auto simp: generateState_def Let_def split_def split: sum.splits)

lemma parseState_minted:
  assumes ok: "runtimeOk R"
    and minted: "generateState R E T ws pf at w = (Inr state, w1)"
    and json: "jsonParse R (jsonStringify R (stateObject ws pf at T (toHex (fst (randomBytes 16 w)))))
                 = Some (stateObject ws pf at T (toHex (fst (randomBytes 16 w))))"
    and ws: "ws \<noteq> []" and T: "T \<noteq> 0"
  shows "parseState R E now state w2 =
           (if now - T > STATE_EXPIRY_MS
            then \<lparr>stateData = Some (stateObject ws pf at T (toHex (fst (randomBytes 16 w)))),
                  isValid = False, parseError = Some ''State has expired''\<rparr>
            else \<lparr>stateData = Some (stateObject ws pf at T (toHex (fst (randomBytes 16 w)))),
                  isValid = True, parseError = None\<rparr>, w2)"
proof -
  define obj where "obj = stateObject ws pf at T (toHex (fst (randomBytes 16 w)))"
  obtain secret where s: "getStateSecret E = Inr secret"
    and st: "state = base64urlEncode R (cbcEncrypt R secret (utf8Encode (jsonStringify R obj)))"
    using generateState_minted[OF minted] unfolding obj_def by blast
  have d1: "base64urlDecode R state = cbcEncrypt R secret (utf8Encode (jsonStringify R obj))"
    using ok unfolding st runtimeOk_def by blast
  have d2: "cbcDecrypt R secret (cbcEncrypt R secret (utf8Encode (jsonStringify R obj)))
              = Some (utf8Encode (jsonStringify R obj))"
    using ok unfolding runtimeOk_def by blast
  have d3: "utf8Decode (utf8Encode (jsonStringify R obj)) = jsonStringify R obj"
    using ok by (simp add: utf8_roundtrip runtimeOk_wellFormed)
  have d4: "jsonParse R (jsonStringify R obj) = Some obj"
    using json unfolding obj_def .
  have n: "toNumber R (JNum T) = Some T"
    using ok unfolding runtimeOk_def by blast
  have o: "obj = JObj [(str ''workspaceId'', JStr ws), (str ''platform'', JStr (platformStr pf)),
             (str ''accountType'', JStr (accountTypeStr at)), (str ''timestamp'', JNum T),
             (str ''nonce'', JStr (toHex (fst (randomBytes 16 w))))]"
    by (simp add: obj_def stateObject_def)
  have nn: "obj \<noteq> JNull"
    using o by simp
  note mm = stateObject_members[of ws pf at T "toHex (fst (randomBytes 16 w))", folded obj_def]
  show ?thesis
    unfolding parseState_def Let_def d1 s
    by (simp add: d2 d3 d4 mm n nn falsy_def T ws platformStr_nonempty accountTypeStr_nonempty
          nonce_nonempty flip: obj_def)
qed


text \<open>
  C3, as the code has it. A state minted by \<open>generateState\<close> at a clock reading \<open>T\<close> other
  than 0, for a workspace id that is not empty, and whose JSON text parses back to the
  same object, is valid when parsed nine minutes later and invalid, with the reason
  \<^verbatim>\<open>State has expired\<close>, eleven minutes later.
\<close>

theorem parseState_expiry:
  assumes "runtimeOk R"
    and "generateState R E T ws pf at w = (Inr state, w1)"
    and "jsonParse R (jsonStringify R (stateObject ws pf at T (toHex (fst (randomBytes 16 w)))))
           = Some (stateObject ws pf at T (toHex (fst (randomBytes 16 w))))"
    and "ws \<noteq> []" and "T \<noteq> 0"
  shows "isValid (fst (parseState R E (T + 9 * 60 * 1000) state w2))
       \<and> \<not> isValid (fst (parseState R E (T + 11 * 60 * 1000) state w2))
       \<and> parseError (fst (parseState R E (T + 11 * 60 * 1000) state w2))
           = Some ''State has expired''"
  by (simp add: parseState_minted[OF assms] STATE_EXPIRY_MS_def)

lemma sample_utf8: "utf8Encode (str ''doc'') = str ''doc''" "utf8Decode (str ''doc'') = str ''doc''"
  by (simp_all add: str_def utf8Bytes_def scalarOf_def isHighSurrogate_def isLowSurrogate_def)

lemma sample_secret: "getStateSecret sampleEnv = Inr (str ''secret'')"
  by (simp add: getStateSecret_def sampleEnv_def orElse_def truthyStr_def str_def)

lemma sample_generateState:
  "generateState (sampleRuntime (stateObject ws pf at T (toHex (fst (randomBytes 16 w)))))
     sampleEnv T ws pf at w = (Inr (str ''doc''), snd (randomBytes 16 w))"
  by (simp add: generateState_def Let_def split_def sample_secret sampleRuntime_def sample_utf8)

theorem parseState_expiry_witness:
  "isValid (fst (parseState
       (sampleRuntime (stateObject (str ''ws1'') X PERSONAL 1000
          (toHex (fst (randomBytes 16 (sampleWorld []))))))
       sampleEnv (1000 + 9 * 60 * 1000) (str ''doc'') (sampleWorld [])))
   \<and> \<not> isValid (fst (parseState
       (sampleRuntime (stateObject (str ''ws1'') X PERSONAL 1000
          (toHex (fst (randomBytes 16 (sampleWorld []))))))
       sampleEnv (1000 + 11 * 60 * 1000) (str ''doc'') (sampleWorld [])))"
  using parseState_expiry[OF sampleRuntime_ok sample_generateState,
          where ws = "str ''ws1''" and pf = X and at = PERSONAL and T = 1000
            and w = "sampleWorld []" and ?w2.0 = "sampleWorld []"]
  by (simp add: sampleRuntime_def str_def)

text \<open>
  C3 as stated, for every minted state, fails on the empty workspace id: the token is
  minted, and nine minutes later the required-fields check refuses it as
  \<^verbatim>\<open>Invalid state format\<close>.
\<close>

theorem parseState_empty_workspace_counterexample:
  "fst (generateState
         (sampleRuntime (stateObject [] X PERSONAL 1000
            (toHex (fst (randomBytes 16 (sampleWorld []))))))
         sampleEnv 1000 [] X PERSONAL (sampleWorld [])) = Inr (str ''doc'')
   \<and> fst (parseState
         (sampleRuntime (stateObject [] X PERSONAL 1000
            (toHex (fst (randomBytes 16 (sampleWorld []))))))
         sampleEnv (1000 + 9 * 60 * 1000) (str ''doc'') (sampleWorld []))
       = \<lparr>stateData = None, isValid = False, parseError = Some ''Invalid state format''\<rparr>"
proof -
  have g: "fst (generateState
         (sampleRuntime (stateObject [] X PERSONAL 1000
            (toHex (fst (randomBytes 16 (sampleWorld []))))))
         sampleEnv 1000 [] X PERSONAL (sampleWorld [])) = Inr (str ''doc'')"
    by (simp add: sample_generateState)
  have p: "fst (parseState
         (sampleRuntime (stateObject [] X PERSONAL 1000
            (toHex (fst (randomBytes 16 (sampleWorld []))))))
         sampleEnv (1000 + 9 * 60 * 1000) (str ''doc'') (sampleWorld []))
       = \<lparr>stateData = None, isValid = False, parseError = Some ''Invalid state format''\<rparr>"
    by (simp add: parseState_def sample_secret sampleRuntime_def sample_utf8
          stateObject_members falsy_def stateObject_def)
  show ?thesis using g p by simp
qed

lemma throwOAuthError_not_badRequest: "\<not> isBadRequest (fst (throwOAuthError e c w))"
  by (auto simp: throwOAuthError_def handleOAuthError_def isBadRequest_def split: jsError.splits)

lemma isBadRequest_Inr: "\<not> isBadRequest (Inr x)"
  by (simp add: isBadRequest_def)

text \<open>
  C1. The code does not bind a state to the platform of the callback: \<open>parseState\<close> has
  no platform to compare with, and the Facebook callback, given a fresh state minted for
  any platform \<open>pf\<close>, passes validation and has no \<^verbatim>\<open>BAD_REQUEST\<close> outcome.
\<close>

theorem facebookHandleCallback_accepts_foreign_state:
  assumes "runtimeOk R"
    and "generateState R E T ws pf at w = (Inr state, w1)"
    and "jsonParse R (jsonStringify R (stateObject ws pf at T (toHex (fst (randomBytes 16 w)))))
           = Some (stateObject ws pf at T (toHex (fst (randomBytes 16 w))))"
    and "ws \<noteq> []" and "T \<noteq> 0"
    and "now - T \<le> STATE_EXPIRY_MS"
  shows "isValid (fst (parseState R E now state w2))
       \<and> \<not> isBadRequest (fst (facebookHandleCallback R E P now code state redirectUri w2))"
  using assms(6)
  by (auto simp: facebookHandleCallback_def parseState_minted[OF assms(1-5)] Let_def
        throwOAuthError_not_badRequest isBadRequest_Inr
      split: sum.splits prod.splits)

theorem facebookHandleCallback_accepts_foreign_state_witness:
  "\<not> isBadRequest (fst (facebookHandleCallback
         (sampleRuntime (stateObject (str ''ws1'') X PERSONAL 1000
            (toHex (fst (randomBytes 16 (sampleWorld []))))))
         sampleEnv (sampleRemote (Response True)) 61000 (str ''code'') (str ''doc'')
         (str ''https://app/cb/facebook'') (sampleWorld [])))
   \<and> fst (facebookHandleCallback
         (sampleRuntime (stateObject (str ''ws1'') X PERSONAL 1000
            (toHex (fst (randomBytes 16 (sampleWorld []))))))
         sampleEnv (sampleRemote (Response True)) 61000 (str ''code'') (str ''doc'')
         (str ''https://app/cb/facebook'') (sampleWorld []))
     = Inr (samplePlatformAccount, sampleTokens)"
proof -
  let ?R = "sampleRuntime (stateObject (str ''ws1'') X PERSONAL 1000
            (toHex (fst (randomBytes 16 (sampleWorld [])))))"
  let ?r = "fst (facebookHandleCallback ?R sampleEnv (sampleRemote (Response True))
         61000 (str ''code'') (str ''doc'')
         (str ''https://app/cb/facebook'') (sampleWorld []))"
  have nb: "\<not> isBadRequest ?r"
    using facebookHandleCallback_accepts_foreign_state[OF sampleRuntime_ok sample_generateState,
          where ws = "str ''ws1''" and pf = X and at = PERSONAL and T = 1000
            and w = "sampleWorld []" and ?w2.0 = "sampleWorld []" and now = 61000]
    by (simp add: sampleRuntime_def str_def STATE_EXPIRY_MS_def)
  have p: "parseState ?R sampleEnv 61000 (str ''doc'') (sampleWorld [])
     = (\<lparr>stateData = Some (stateObject (str ''ws1'') X PERSONAL 1000
            (toHex (fst (randomBytes 16 (sampleWorld []))))), isValid = True, parseError = None\<rparr>,
         sampleWorld [])"
    using parseState_minted[OF sampleRuntime_ok sample_generateState,
          where ws = "str ''ws1''" and pf = X and at = PERSONAL and T = 1000
            and w = "sampleWorld []" and ?w2.0 = "sampleWorld []" and now = 61000]
    by (simp add: sampleRuntime_def str_def STATE_EXPIRY_MS_def)
  let ?sd = "stateObject (str ''ws1'') X PERSONAL 1000
            (toHex (fst (randomBytes 16 (sampleWorld []))))"
  have k: "ENCRYPTION_KEY sampleEnv = Some (str ''master'')" "str ''master'' \<noteq> []"
    by (simp_all add: sampleEnv_def str_def)
  have m: "member (str ''accountType'') ?sd \<noteq> Some (JStr (str ''page''))"
      "member (str ''workspaceId'') ?sd = Some (JStr (str ''ws1''))"
    by (simp_all add: stateObject_def str_def)
  have st: "fst (storeForState ?R sampleEnv 61000 FACEBOOK ?sd samplePlatformAccount
                  sampleTokens (sampleWorld [])) = Inr ()"
    unfolding storeForState_def m
    by (simp add: providerStoreCredentials_def storeCredentials_def encryptCredentials_def
          encrypt_def encryptObject_def k Let_def split_def sampleTokens_def truthyStr_def
          findUniqueByKey_def dbCreate_def sampleWorld_def randomBytes_def
          samplePlatformAccount_def logCredentialAccess_def logTo_def)
  have "?r = Inr (samplePlatformAccount, sampleTokens)"
    unfolding facebookHandleCallback_def p
    by (simp add: sampleRemote_def m st Let_def split_def)
  with nb show ?thesis by (rule conjI)
qed

text \<open>
  The X callback refuses such a state only where no code verifier is stored under it;
  with a verifier under that key it goes on to the token exchange like the others.
\<close>

lemma xHandleCallback_foreign_state:
  assumes "runtimeOk R"
    and "generateState R E T ws pf at w = (Inr state, w1)"
    and "jsonParse R (jsonStringify R (stateObject ws pf at T (toHex (fst (randomBytes 16 w)))))
           = Some (stateObject ws pf at T (toHex (fst (randomBytes 16 w))))"
    and "ws \<noteq> []" and "T \<noteq> 0"
    and "now - T \<le> STATE_EXPIRY_MS"
  shows "store (sessions w2) (str ''pkce:'' @ state) = None
           \<Longrightarrow> fst (xHandleCallback R E P now code state redirectUri w2)
                 = Inl (TRPCError BAD_REQUEST ''PKCE code verifier not found'')"
    and "store (sessions w2) (str ''pkce:'' @ state) = Some entry
           \<Longrightarrow> \<not> now > expiresAt entry \<Longrightarrow> data entry \<noteq> []
           \<Longrightarrow> \<not> isBadRequest (fst (xHandleCallback R E P now code state redirectUri w2))"
  using assms(6)
  by (auto simp: xHandleCallback_def parseState_minted[OF assms(1-5)] sessionGet_def
        truthyStr_def throwOAuthError_not_badRequest isBadRequest_Inr
      split: sum.splits prod.splits)

section \<open>Revoking, updating and storing again\<close>

text \<open>
  C5. \<open>revokeAccess\<close> asks \<open>getCredentials\<close> first and returns at once on \<^verbatim>\<open>null\<close>. An active
  record whose stored expiry has passed gives \<^verbatim>\<open>null\<close> there, so the operation succeeds
  and the record stays as it was, still active: no revoke request and no local
  revocation take place.
\<close>

theorem revokeAccess_leaves_expired_active:
  assumes "findUniqueById accountId w = Inr (Some account)"
    and "isActive account" and "tokenExpiresAt account = Some t" and "t < now"
  shows "fst (revokeAccess R E P now accountId w) = Inr ()
       \<and> findUniqueById accountId (snd (revokeAccess R E P now accountId w)) = Inr (Some account)"
  using assms
  by (simp add: revokeAccess_def getCredentials_def findUniqueById_def logCredentialAccess_def
        logTo_def split: if_splits)

theorem revokeAccess_leaves_expired_active_witness:
  "fst (revokeAccess (sampleRuntime JNull) sampleEnv (sampleRemote (Response True)) 1000
         (str ''acc1'') (sampleWorld [sampleAccount\<lparr>tokenExpiresAt := Some 500\<rparr>])) = Inr ()
   \<and> findUniqueById (str ''acc1'')
         (snd (revokeAccess (sampleRuntime JNull) sampleEnv (sampleRemote (Response True)) 1000
                (str ''acc1'') (sampleWorld [sampleAccount\<lparr>tokenExpiresAt := Some 500\<rparr>])))
       = Inr (Some (sampleAccount\<lparr>tokenExpiresAt := Some 500\<rparr>))
   \<and> isActive (sampleAccount\<lparr>tokenExpiresAt := Some 500\<rparr>)"
  using revokeAccess_leaves_expired_active
    [where accountId = "str ''acc1''" and now = 1000 and t = 500
       and w = "sampleWorld [sampleAccount\<lparr>tokenExpiresAt := Some 500\<rparr>]"
       and account = "sampleAccount\<lparr>tokenExpiresAt := Some 500\<rparr>"
       and R = "sampleRuntime JNull" and E = sampleEnv and P = "sampleRemote (Response True)"]
  by (simp add: findUniqueById_def sampleWorld_def sampleAccount_def)

lemma find_applyData:
  "find (\<lambda>r. rowId r = i) (map (\<lambda>x. if rowId x = i then applyData d x else x) rs)
     = map_option (applyData d) (find (\<lambda>r. rowId r = i) rs)"
  by (induction rs) (simp_all add: applyData_def)

lemma revokeCredentials_found:
  assumes "findUniqueById accountId w = Inr (Some account)"
  shows "fst (revokeCredentials now accountId w) = Inr ()"
    and "findUniqueById accountId (snd (revokeCredentials now accountId w))
           = Inr (Some (applyData (noData\<lparr>d_isActive := Some False, d_updatedAt := Some now\<rparr>) account))"
    and "console (snd (revokeCredentials now accountId w))
           = console w @ [CredentialAudit accountId ''REVOKED'']"
  using assms
  by (simp_all add: revokeCredentials_def findUniqueById_def dbUpdate_def find_applyData
        logCredentialAccess_def logTo_def split: if_splits)

text \<open>
  Where \<open>getCredentials\<close> does return credentials, the record is inactive afterwards
  whatever the revoke request does, the operation succeeds, and a failed request is on
  the console.
\<close>

lemma revokeAccess_marks_inactive:
  assumes "getCredentials R E now accountId w = (Inr (Some credentials), w1)"
  shows "fst (revokeAccess R E P now accountId w) = Inr ()
       \<and> (\<exists>account. findUniqueById accountId (snd (revokeAccess R E P now accountId w))
                         = Inr (Some account) \<and> \<not> isActive account)
       \<and> (revokeCall P (c_accessToken credentials) = FetchRejects
            \<longrightarrow> ConsoleError ''Error revoking X access:''
                  \<in> set (console (snd (revokeAccess R E P now accountId w))))
       \<and> (revokeCall P (c_accessToken credentials) = Response False
            \<longrightarrow> ConsoleWarn ''Failed to revoke X token:''
                  \<in> set (console (snd (revokeAccess R E P now accountId w))))"
proof -
  obtain account where a: "findUniqueById accountId w = Inr (Some account)"
    using assms by (auto simp: getCredentials_def getFailed_def split: sum.splits option.splits)
  have f: "findUniqueById accountId w1 = Inr (Some account)"
    using assms a
    by (auto simp: getCredentials_def getFailed_def findUniqueById_def decryptCredentials_def
          decrypt_def decryptFailed_def logCredentialAccess_def logTo_def Let_def
        split: sum.splits option.splits if_splits prod.splits)
  have g: "findUniqueById accountId (logTo e w1) = Inr (Some account)" for e
    using f by (simp add: findUniqueById_def logTo_def split: if_splits)
  have c: "console (logTo e w1) = console w1 @ [e]" for e
    by (simp add: logTo_def)
  show ?thesis
    unfolding revokeAccess_def assms
    by (cases "revokeCall P (c_accessToken credentials)")
       (auto simp: revokeCredentials_found[OF f] revokeCredentials_found[OF g] applyData_def
          noData_def c split_def)
qed

lemma encrypt_frame:
  "rows (snd (encrypt R E s w)) = rows w" "dbOnline (snd (encrypt R E s w)) = dbOnline w"
  by (simp_all add: encrypt_def encryptFailed_def logTo_def randomBytes_def Let_def split_def
        split: option.splits)

lemma runtimeOk_base64_nonempty: "runtimeOk R \<Longrightarrow> bs \<noteq> [] \<Longrightarrow> base64Encode R bs \<noteq> []"
  unfolding runtimeOk_def by blast

lemma encrypt_nonempty:
  assumes ok: "runtimeOk R" and enc: "encrypt R E s w = (Inr c, w1)"
  shows "c \<noteq> []"
proof -
  obtain mk where mk: "ENCRYPTION_KEY E = Some mk" "mk \<noteq> []"
    using enc by (auto simp: encrypt_def encryptFailed_def split: option.splits if_splits)
  define salt where "salt = fst (randomBytes SALT_LENGTH w)"
  define rest where "rest =
     (let (iv, w2) = randomBytes IV_LENGTH (snd (randomBytes SALT_LENGTH w));
          (encrypted, tag) = gcmEncrypt R (deriveKey R mk salt) iv salt (utf8Encode s)
      in iv @ tag @ encrypted)"
  have c: "c = base64Encode R (salt @ rest)"
    using enc mk by (auto simp: encrypt_def Let_def split_def salt_def rest_def)
  have "salt \<noteq> []"
    using randomBytes_length[of SALT_LENGTH w] by (auto simp: salt_def SALT_LENGTH_def)
  then show ?thesis
    unfolding c by (intro runtimeOk_base64_nonempty[OF ok]) simp
qed

lemma encrypt_succeeds:
  assumes "runtimeOk R" and "truthyStr (ENCRYPTION_KEY E)"
  obtains c w1 where "encrypt R E s w = (Inr c, w1)" "c \<noteq> []"
    "\<And>w2. decrypt R E c w2 = (Inr (utf8Decode (utf8Encode s)), w2)"
    "rows w1 = rows w" "dbOnline w1 = dbOnline w"
proof -
  obtain r w1 where e: "encrypt R E s w = (r, w1)"
    by (cases "encrypt R E s w")
  obtain c where c: "r = Inr c"
    using encrypt_then_decrypt[OF assms e] by blast
  have d: "decrypt R E c w2 = (Inr (utf8Decode (utf8Encode s)), w2)" for w2
    using encrypt_then_decrypt[OF assms e, of w2] c by simp
  show ?thesis
    using that[of c w1] e c d encrypt_nonempty[OF assms(1), of E s w c w1]
      encrypt_frame[of R E s w]
    by simp
qed

lemma encryptCredentials_succeeds:
  assumes ok: "runtimeOk R" and key: "truthyStr (ENCRYPTION_KEY E)"
  obtains enc w1 where "encryptCredentials R E b w = (Inr enc, w1)"
    "\<And>w2. decrypt R E (e_encryptedAccessToken enc) w2
             = (Inr (utf8Decode (utf8Encode (b_accessToken b))), w2)"
    "\<not> truthyStr (b_refreshToken b) \<Longrightarrow> e_encryptedRefreshToken enc = None"
    "\<And>r. b_refreshToken b = Some r \<Longrightarrow> r \<noteq> [] \<Longrightarrow>
          \<exists>er. e_encryptedRefreshToken enc = Some er \<and> er \<noteq> []
             \<and> (\<forall>w2. decrypt R E er w2 = (Inr (utf8Decode (utf8Encode r)), w2))"
    "rows w1 = rows w" "dbOnline w1 = dbOnline w"
proof -
  obtain ca wa where a: "encrypt R E (b_accessToken b) w = (Inr ca, wa)"
      "\<And>w2. decrypt R E ca w2 = (Inr (utf8Decode (utf8Encode (b_accessToken b))), w2)"
      "rows wa = rows w" "dbOnline wa = dbOnline w"
    using encrypt_succeeds[OF ok key, of "b_accessToken b" w] by metis
  show ?thesis
  proof (cases "truthyStr (b_refreshToken b)")
    case False
    obtain cm wm where m: "encrypt R E (jsonStringify R (metadataOf R b)) wa = (Inr cm, wm)"
        "rows wm = rows wa" "dbOnline wm = dbOnline wa"
      using encrypt_succeeds[OF ok key, of "jsonStringify R (metadataOf R b)" wa] by metis
    show ?thesis
      using False a m
      by (intro that[of "\<lparr>e_encryptedAccessToken = ca, e_encryptedRefreshToken = None,
                          e_encryptedMetadata = Some cm\<rparr>" wm])
         (auto simp: encryptCredentials_def encryptObject_def truthyStr_def)
  next
    case True
    then obtain r where r: "b_refreshToken b = Some r" "r \<noteq> []"
      by (auto simp: truthyStr_def split: option.splits)
    obtain cr wr where rr: "encrypt R E r wa = (Inr cr, wr)" "cr \<noteq> []"
        "\<And>w2. decrypt R E cr w2 = (Inr (utf8Decode (utf8Encode r)), w2)"
        "rows wr = rows wa" "dbOnline wr = dbOnline wa"
      using encrypt_succeeds[OF ok key, of r wa] by metis
    obtain cm wm where m: "encrypt R E (jsonStringify R (metadataOf R b)) wr = (Inr cm, wm)"
        "rows wm = rows wr" "dbOnline wm = dbOnline wr"
      using encrypt_succeeds[OF ok key, of "jsonStringify R (metadataOf R b)" wr] by metis
    show ?thesis
      using True a m r rr
      by (intro that[of "\<lparr>e_encryptedAccessToken = ca, e_encryptedRefreshToken = Some cr,
                          e_encryptedMetadata = Some cm\<rparr>" wm])
         (auto simp: encryptCredentials_def encryptObject_def)
  qed
qed

lemma getCredentials_null_frame:
  assumes "findUniqueById accountId w = Inr (Some account)"
    and "\<not> isActive account \<or> (\<exists>t. tokenExpiresAt account = Some t \<and> t < now)"
  shows "fst (getCredentials R E now accountId w) = Inr None"
    and "rows (snd (getCredentials R E now accountId w)) = rows w"
    and "dbOnline (snd (getCredentials R E now accountId w)) = dbOnline w"
  using assms
  by (auto simp: getCredentials_def logCredentialAccess_def logTo_def)

lemma dbUpdate_found:
  assumes "findUniqueById i w = Inr (Some account)"
  shows "fst (dbUpdate i d w) = Inr (applyData d account)"
    and "findUniqueById i (logCredentialAccess a s (snd (dbUpdate i d w)))
           = Inr (Some (applyData d account))"
  using assms
  by (simp_all add: findUniqueById_def dbUpdate_def find_applyData logCredentialAccess_def
        logTo_def split: if_splits)

lemma findUniqueById_frame:
  "rows w1 = rows w \<Longrightarrow> dbOnline w1 = dbOnline w \<Longrightarrow> findUniqueById i w1 = findUniqueById i w"
  by (simp add: findUniqueById_def)

lemma findUniqueByKey_frame:
  "rows w1 = rows w \<Longrightarrow> dbOnline w1 = dbOnline w
     \<Longrightarrow> findUniqueByKey a b c w1 = findUniqueByKey a b c w"
  by (simp add: findUniqueByKey_def)

text \<open>
  C4. The merge reads the current tokens through \<open>getCredentials\<close>, which gives \<^verbatim>\<open>null\<close>
  for a record that is inactive or expired. An update of such a record that supplies the
  refresh token and not the access token stores the encryption of the empty string as
  the access token.
\<close>

theorem updateCredentials_empties_access_token:
  assumes ok: "runtimeOk R" and key: "truthyStr (ENCRYPTION_KEY E)"
    and lookup: "findUniqueById accountId w = Inr (Some account)"
    and gate: "\<not> isActive account \<or> (\<exists>t. tokenExpiresAt account = Some t \<and> t < now)"
    and rt: "truthyStr (u_refreshToken updates)"
    and at: "\<not> truthyStr (u_accessToken updates)"
  shows "\<exists>account'.
           findUniqueById accountId (snd (updateCredentials R E now accountId updates w))
             = Inr (Some account')
           \<and> decrypt R E (encryptedAccessToken account') w' = (Inr [], w')"
proof -
  define wg where "wg = snd (getCredentials R E now accountId w)"
  have g: "getCredentials R E now accountId w = (Inr None, wg)"
      "rows wg = rows w" "dbOnline wg = dbOnline w"
    using getCredentials_null_frame[OF lookup gate, of R E]
    by (simp_all add: wg_def prod_eq_iff)
  define b where "b = mergedTokens updates None"
  have b0: "b_accessToken b = []"
    using at by (simp add: b_def mergedTokens_def orElse_def truthyStr_def)
  obtain enc w1 where e: "encryptCredentials R E b wg = (Inr enc, w1)"
      "\<And>w2. decrypt R E (e_encryptedAccessToken enc) w2
               = (Inr (utf8Decode (utf8Encode (b_accessToken b))), w2)"
      "rows w1 = rows wg" "dbOnline w1 = dbOnline wg"
    using encryptCredentials_succeeds[OF ok key, of b wg] by metis
  define d0 where "d0 = noData\<lparr>d_updatedAt := Some now,
       d_encryptedAccessToken := Some (e_encryptedAccessToken enc),
       d_encryptedRefreshToken :=
         (if truthyStr (e_encryptedRefreshToken enc) then e_encryptedRefreshToken enc else None)\<rparr>"
  have t: "tokenUpdateData R E now accountId updates w = (Inr d0, w1)"
    unfolding tokenUpdateData_def using rt by (simp add: g e(1) d0_def flip: b_def)
  define d where "d = d0\<lparr>d_tokenExpiresAt := u_expiresAt updates,
       d_displayName := u_displayName updates, d_permissions := u_permissions updates,
       d_platformMetadata := u_platformMetadata updates\<rparr>"
  have l1: "findUniqueById accountId w1 = Inr (Some account)"
    using lookup findUniqueById_frame[of w1 w] e(3,4) g(2,3) by simp
  have "findUniqueById accountId (snd (updateCredentials R E now accountId updates w))
          = Inr (Some (applyData d account))"
    unfolding updateCredentials_def
    by (simp add: lookup t split_def dbUpdate_found[OF l1] flip: d_def)
  moreover have "encryptedAccessToken (applyData d account) = e_encryptedAccessToken enc"
    by (simp add: applyData_def d_def d0_def)
  moreover have "decrypt R E (e_encryptedAccessToken enc) w' = (Inr [], w')"
    using e(2)[of w'] by (simp add: b0)
  ultimately show ?thesis by simp
qed

text \<open>
  C7. Storing credentials for a triple that has a record updates that record, but a
  refresh token and an expiry that the new credentials do not carry are passed to the
  update as \<^verbatim>\<open>undefined\<close>, and the record keeps the refresh token and the expiry of the
  earlier credentials beside the new access token.
\<close>

theorem storeCredentials_keeps_stored_refresh_token:
  assumes ok: "runtimeOk R" and key: "truthyStr (ENCRYPTION_KEY E)"
    and byKey: "findUniqueByKey ws pf (c_platformAccountId credentials) w = Inr (Some existing)"
    and byId: "findUniqueById (rowId existing) w = Inr (Some existing)"
    and noRefresh: "\<not> truthyStr (c_refreshToken credentials)"
  shows "\<exists>account'.
           findUniqueById (rowId existing)
             (snd (storeCredentials R E now ws pf at credentials w)) = Inr (Some account')
           \<and> isActive account'
           \<and> displayName account' = c_displayName credentials
           \<and> encryptedRefreshToken account' = encryptedRefreshToken existing
           \<and> tokenExpiresAt account'
               = (case c_expiresAt credentials of
                    None \<Rightarrow> tokenExpiresAt existing
                  | Some t \<Rightarrow> Some t)"
proof -
  define b where "b = \<lparr>b_accessToken = c_accessToken credentials,
       b_refreshToken = c_refreshToken credentials, b_expiresAt = c_expiresAt credentials,
       b_scope = c_scope credentials\<rparr>"
  obtain enc w1 where e: "encryptCredentials R E b w = (Inr enc, w1)"
      "\<not> truthyStr (b_refreshToken b) \<Longrightarrow> e_encryptedRefreshToken enc = None"
      "rows w1 = rows w" "dbOnline w1 = dbOnline w"
    using encryptCredentials_succeeds[OF ok key, of b w] by metis
  have nr: "e_encryptedRefreshToken enc = None"
    using e(2) noRefresh by (simp add: b_def)
  define d where "d = \<lparr>d_displayName = Some (c_displayName credentials),
       d_encryptedAccessToken = Some (e_encryptedAccessToken enc),
       d_encryptedRefreshToken = e_encryptedRefreshToken enc,
       d_tokenExpiresAt = c_expiresAt credentials, d_isActive = Some True,
       d_permissions = Some (c_permissions credentials),
       d_platformMetadata = Some (c_platformMetadata credentials),
       d_updatedAt = Some now\<rparr>"
  have k1: "findUniqueByKey ws pf (c_platformAccountId credentials) w1 = Inr (Some existing)"
    using byKey findUniqueByKey_frame[of w1 w] e(3,4) by simp
  have l1: "findUniqueById (rowId existing) w1 = Inr (Some existing)"
    using byId findUniqueById_frame[of w1 w] e(3,4) by simp
  have r: "rowId (applyData d existing) = rowId existing"
    by (simp add: applyData_def)
  have "findUniqueById (rowId existing) (snd (storeCredentials R E now ws pf at credentials w))
          = Inr (Some (applyData d existing))"
    unfolding storeCredentials_def
    by (simp add: e(1) k1 split_def dbUpdate_found[OF l1] r flip: b_def d_def)
  moreover have "isActive (applyData d existing)"
      "displayName (applyData d existing) = c_displayName credentials"
      "encryptedRefreshToken (applyData d existing) = encryptedRefreshToken existing"
      "tokenExpiresAt (applyData d existing)
         = (case c_expiresAt credentials of None \<Rightarrow> tokenExpiresAt existing | Some t \<Rightarrow> Some t)"
    by (simp_all add: applyData_def d_def nr)
  ultimately show ?thesis by simp
qed


lemma sample_key: "truthyStr (ENCRYPTION_KEY sampleEnv)"
  by (simp add: sampleEnv_def truthyStr_def str_def)

theorem updateCredentials_empties_access_token_witness:
  "decrypt (sampleRuntime JNull) sampleEnv
       (encryptedAccessToken (sampleAccount\<lparr>isActive := False\<rparr>)) (sampleWorld [])
     = (Inr (str ''tok''), sampleWorld [])
   \<and> (\<exists>account'.
         findUniqueById (str ''acc1'')
           (snd (updateCredentials (sampleRuntime JNull) sampleEnv 1000 (str ''acc1'')
                   \<lparr>u_accessToken = None, u_refreshToken = Some (str ''r2''),
                    u_expiresAt = None, u_scope = None, u_platformAccountId = None,
                    u_displayName = None, u_permissions = None, u_platformMetadata = None\<rparr>
                   (sampleWorld [sampleAccount\<lparr>isActive := False\<rparr>])))
           = Inr (Some account')
         \<and> decrypt (sampleRuntime JNull) sampleEnv (encryptedAccessToken account')
               (sampleWorld [])
             = (Inr [], sampleWorld []))"
proof -
  have k: "ENCRYPTION_KEY sampleEnv = Some (str ''master'')" "str ''master'' \<noteq> []"
    by (simp_all add: sampleEnv_def str_def)
  have "decrypt (sampleRuntime JNull) sampleEnv
       (encryptedAccessToken (sampleAccount\<lparr>isActive := False\<rparr>)) (sampleWorld [])
     = (Inr (str ''tok''), sampleWorld [])"
    by (simp add: decrypt_def k Let_def sampleRuntime_def sampleAccount_def SALT_LENGTH_def
          IV_LENGTH_def TAG_LENGTH_def str_def)
  then show ?thesis
    using updateCredentials_empties_access_token
      [OF sampleRuntime_ok sample_key,
        where accountId = "str ''acc1''" and now = 1000 and doc1 = JNull
          and w = "sampleWorld [sampleAccount\<lparr>isActive := False\<rparr>]"
          and account = "sampleAccount\<lparr>isActive := False\<rparr>"
          and w' = "sampleWorld []"
          and updates = "\<lparr>u_accessToken = None, u_refreshToken = Some (str ''r2''),
                    u_expiresAt = None, u_scope = None, u_platformAccountId = None,
                    u_displayName = None, u_permissions = None, u_platformMetadata = None\<rparr>"]
    by (simp add: findUniqueById_def sampleWorld_def sampleAccount_def truthyStr_def str_def)
qed

theorem storeCredentials_keeps_stored_refresh_token_witness:
  "\<exists>account'.
     findUniqueById (str ''acc1'')
       (snd (storeCredentials (sampleRuntime JNull) sampleEnv 1000 (str ''ws1'') (str ''x'')
               (str ''personal'')
               \<lparr>c_accessToken = str ''a2'', c_refreshToken = None, c_expiresAt = None,
                c_scope = None, c_platformAccountId = str ''42'', c_displayName = str ''Ada L'',
                c_permissions = [], c_platformMetadata = JObj []\<rparr>
               (sampleWorld [sampleAccount
                  \<lparr>encryptedRefreshToken := Some (replicate 64 0 @ str ''r1''),
                   tokenExpiresAt := Some 500\<rparr>])))
       = Inr (Some account')
     \<and> isActive account'
     \<and> displayName account' = str ''Ada L''
     \<and> encryptedRefreshToken account' = Some (replicate 64 0 @ str ''r1'')
     \<and> tokenExpiresAt account' = Some 500"
  using storeCredentials_keeps_stored_refresh_token
      [OF sampleRuntime_ok sample_key,
        where ws = "str ''ws1''" and pf = "str ''x''" and at = "str ''personal''"
          and now = 1000 and doc1 = JNull
          and w = "sampleWorld [sampleAccount
                  \<lparr>encryptedRefreshToken := Some (replicate 64 0 @ str ''r1''),
                   tokenExpiresAt := Some 500\<rparr>]"
          and existing = "sampleAccount
                  \<lparr>encryptedRefreshToken := Some (replicate 64 0 @ str ''r1''),
                   tokenExpiresAt := Some 500\<rparr>"
          and credentials = "\<lparr>c_accessToken = str ''a2'', c_refreshToken = None,
                c_expiresAt = None, c_scope = None, c_platformAccountId = str ''42'',
                c_displayName = str ''Ada L'', c_permissions = [],
                c_platformMetadata = JObj []\<rparr>"]
  by (simp add: findUniqueById_def findUniqueByKey_def sampleWorld_def sampleAccount_def
        truthyStr_def)

lemma filter_applyData:
  "filter (\<lambda>r. workspaceId r = ws \<and> platform r = pf \<and> platformAccountId r = pid)
     (map (\<lambda>x. if rowId x = i then applyData d x else x) rs)
   = map (\<lambda>x. if rowId x = i then applyData d x else x)
       (filter (\<lambda>r. workspaceId r = ws \<and> platform r = pf \<and> platformAccountId r = pid) rs)"
  by (induction rs) (simp_all add: applyData_def)

lemma find_filter_empty: "find P xs = None \<Longrightarrow> filter P xs = []"
  by (induction xs) (auto split: if_splits)

lemma find_filter_nonempty: "find P xs = Some x \<Longrightarrow> filter P xs \<noteq> []"
  by (induction xs) (auto split: if_splits)

text \<open>
  What does hold of storing again: with the triple unique in the table, as the schema
  demands, a store succeeds and leaves exactly one record for the triple, so two stores
  in a row do.
\<close>

lemma storeCredentials_one_record:
  assumes ok: "runtimeOk R" and key: "truthyStr (ENCRYPTION_KEY E)" and on: "dbOnline w"
    and uniq: "length (filter (\<lambda>r. workspaceId r = ws \<and> platform r = pf
                  \<and> platformAccountId r = c_platformAccountId credentials) (rows w)) \<le> 1"
  shows "\<exists>stored. fst (storeCredentials R E now ws pf at credentials w) = Inr stored"
    and "length (filter (\<lambda>r. workspaceId r = ws \<and> platform r = pf
                  \<and> platformAccountId r = c_platformAccountId credentials)
           (rows (snd (storeCredentials R E now ws pf at credentials w)))) = 1"
    and "dbOnline (snd (storeCredentials R E now ws pf at credentials w))"
proof -
  let ?P = "\<lambda>r. workspaceId r = ws \<and> platform r = pf
                  \<and> platformAccountId r = c_platformAccountId credentials"
  define b where "b = \<lparr>b_accessToken = c_accessToken credentials,
       b_refreshToken = c_refreshToken credentials, b_expiresAt = c_expiresAt credentials,
       b_scope = c_scope credentials\<rparr>"
  obtain enc w1 where e: "encryptCredentials R E b w = (Inr enc, w1)"
      "rows w1 = rows w" "dbOnline w1 = dbOnline w"
    using encryptCredentials_succeeds[OF ok key, of b w] by metis
  have on1: "dbOnline w1" using e(3) on by simp
  show "\<exists>stored. fst (storeCredentials R E now ws pf at credentials w) = Inr stored"
    and "length (filter ?P (rows (snd (storeCredentials R E now ws pf at credentials w)))) = 1"
    and "dbOnline (snd (storeCredentials R E now ws pf at credentials w))"
  proof (atomize (full), cases "find ?P (rows w)")
    case None
    have f: "filter ?P (rows w) = []"
      using find_filter_empty[OF None] .
    show "(\<exists>stored. fst (storeCredentials R E now ws pf at credentials w) = Inr stored)
       \<and> length (filter ?P (rows (snd (storeCredentials R E now ws pf at credentials w)))) = 1
       \<and> dbOnline (snd (storeCredentials R E now ws pf at credentials w))"
      unfolding storeCredentials_def
      by (simp add: e on on1 None f findUniqueByKey_def dbCreate_def Let_def
            logCredentialAccess_def logTo_def flip: b_def)
  next
    case (Some existing)
    have mem: "existing \<in> set (rows w)"
      using Some by (auto simp: find_Some_iff)
    obtain r0 where r0: "find (\<lambda>r. rowId r = rowId existing) (rows w) = Some r0"
      using mem by (cases "find (\<lambda>r. rowId r = rowId existing) (rows w)")
        (auto simp: find_None_iff)
    have n: "length (filter ?P (rows w)) = 1"
      using uniq find_filter_nonempty[OF Some]
      by (cases "filter ?P (rows w)") auto
    show "(\<exists>stored. fst (storeCredentials R E now ws pf at credentials w) = Inr stored)
       \<and> length (filter ?P (rows (snd (storeCredentials R E now ws pf at credentials w)))) = 1
       \<and> dbOnline (snd (storeCredentials R E now ws pf at credentials w))"
      unfolding storeCredentials_def
      by (simp add: e on on1 Some r0 n findUniqueByKey_def dbUpdate_def filter_applyData
            logCredentialAccess_def logTo_def flip: b_def)
  qed
qed

lemma storeCredentials_twice_one_record:
  assumes ok: "runtimeOk R" and key: "truthyStr (ENCRYPTION_KEY E)" and on: "dbOnline w"
    and uniq: "length (filter (\<lambda>r. workspaceId r = ws \<and> platform r = pf
                  \<and> platformAccountId r = pid) (rows w)) \<le> 1"
    and same: "c_platformAccountId first = pid" "c_platformAccountId second = pid"
  shows "length (filter (\<lambda>r. workspaceId r = ws \<and> platform r = pf \<and> platformAccountId r = pid)
           (rows (snd (storeCredentials R E now2 ws pf at2 second
                         (snd (storeCredentials R E now1 ws pf at1 first w)))))) = 1"
proof -
  let ?w1 = "snd (storeCredentials R E now1 ws pf at1 first w)"
  have 1: "length (filter (\<lambda>r. workspaceId r = ws \<and> platform r = pf
              \<and> platformAccountId r = c_platformAccountId second) (rows ?w1)) \<le> 1"
      and 2: "dbOnline ?w1"
    using storeCredentials_one_record(2,3)[OF ok key on, of ws pf first now1 at1] uniq same
    by simp_all
  show ?thesis
    using storeCredentials_one_record(2)[OF ok key 2 1, of now2 at2] same by simp
qed

lemma decrypt_frame:
  "rows (snd (decrypt R E c w)) = rows w" "dbOnline (snd (decrypt R E c w)) = dbOnline w"
  by (simp_all add: decrypt_def decryptFailed_def logTo_def Let_def split: option.splits)

lemma decryptCredentials_frame:
  "rows (snd (decryptCredentials R E a r w)) = rows w"
  "dbOnline (snd (decryptCredentials R E a r w)) = dbOnline w"
  by (simp_all add: decryptCredentials_def decrypt_frame split_def split: sum.splits)

lemma getCredentials_frame:
  "rows (snd (getCredentials R E now accountId w)) = rows w"
  "dbOnline (snd (getCredentials R E now accountId w)) = dbOnline w"
  by (simp_all add: getCredentials_def getFailed_def logCredentialAccess_def logTo_def
        decryptCredentials_frame split_def split: sum.splits option.splits)

lemma getCredentials_Some_found:
  assumes "getCredentials R E now accountId w = (Inr (Some cur), wg)"
  obtains account where "findUniqueById accountId w = Inr (Some account)"
  using assms by (auto simp: getCredentials_def getFailed_def split: sum.splits option.splits)

text \<open>
  What does hold of the merge: for a record that \<open>getCredentials\<close> reads, an update that
  supplies the refresh token only stores the current access token again.
\<close>

lemma updateCredentials_keeps_readable_access_token:
  assumes ok: "runtimeOk R" and key: "truthyStr (ENCRYPTION_KEY E)"
    and cur: "getCredentials R E now accountId w = (Inr (Some cur), wg)"
    and rt: "truthyStr (u_refreshToken updates)"
    and at: "\<not> truthyStr (u_accessToken updates)"
    and wf: "wellFormed (c_accessToken cur)"
  shows "\<exists>account'.
           findUniqueById accountId (snd (updateCredentials R E now accountId updates w))
             = Inr (Some account')
           \<and> decrypt R E (encryptedAccessToken account') w' = (Inr (c_accessToken cur), w')"
proof -
  obtain account where lookup: "findUniqueById accountId w = Inr (Some account)"
    using getCredentials_Some_found[OF cur] .
  have g: "rows wg = rows w" "dbOnline wg = dbOnline w"
    using getCredentials_frame[of R E now accountId w] cur by simp_all
  define b where "b = mergedTokens updates (Some cur)"
  have b0: "b_accessToken b = c_accessToken cur"
    using at by (auto simp: b_def mergedTokens_def orElse_def truthyStr_def split: option.splits)
  obtain enc w1 where e: "encryptCredentials R E b wg = (Inr enc, w1)"
      "\<And>w2. decrypt R E (e_encryptedAccessToken enc) w2
               = (Inr (utf8Decode (utf8Encode (b_accessToken b))), w2)"
      "rows w1 = rows wg" "dbOnline w1 = dbOnline wg"
    using encryptCredentials_succeeds[OF ok key, of b wg] by metis
  define d0 where "d0 = noData\<lparr>d_updatedAt := Some now,
       d_encryptedAccessToken := Some (e_encryptedAccessToken enc),
       d_encryptedRefreshToken :=
         (if truthyStr (e_encryptedRefreshToken enc) then e_encryptedRefreshToken enc else None)\<rparr>"
  have t: "tokenUpdateData R E now accountId updates w = (Inr d0, w1)"
    unfolding tokenUpdateData_def using rt by (simp add: cur e(1) d0_def flip: b_def)
  define d where "d = d0\<lparr>d_tokenExpiresAt := u_expiresAt updates,
       d_displayName := u_displayName updates, d_permissions := u_permissions updates,
       d_platformMetadata := u_platformMetadata updates\<rparr>"
  have l1: "findUniqueById accountId w1 = Inr (Some account)"
    using lookup findUniqueById_frame[of w1 w] e(3,4) g by simp
  have "findUniqueById accountId (snd (updateCredentials R E now accountId updates w))
          = Inr (Some (applyData d account))"
    unfolding updateCredentials_def
    by (simp add: lookup t split_def dbUpdate_found[OF l1] flip: d_def)
  moreover have "encryptedAccessToken (applyData d account) = e_encryptedAccessToken enc"
    by (simp add: applyData_def d_def d0_def)
  moreover have "decrypt R E (e_encryptedAccessToken enc) w' = (Inr (c_accessToken cur), w')"
    using e(2)[of w'] by (simp add: b0 utf8_roundtrip[OF wf])
  ultimately show ?thesis by simp
qed

end
